theory Spec2Isabelle
  imports Main "HOL-Library.Sublist"
begin

section \<open>Python values\<close>

text \<open>
  The program (\<^verbatim>\<open>main.py\<close>) works on the values that \<^verbatim>\<open>response.json()\<close> returns:
  \<^verbatim>\<open>None\<close>, booleans, numbers, strings, lists and dicts. A dict is the list of its
  items in insertion order (a key is looked up at its first item). Strings are byte
  strings holding the UTF-8 encoding of the Python \<^verbatim>\<open>str\<close>: the program compares,
  searches and trims strings and never counts their characters. Numbers are integers
  (the program does no arithmetic).
\<close>

datatype json =
    JNull
  | JBool bool
  | JNum int
  | JStr string
  | JArr "json list"
  | JObj "(string \<times> json) list"

text \<open>The exceptions the program's \<^verbatim>\<open>except\<close> clauses tell apart.\<close>

datatype exc = RequestException | JSONDecodeError | AttributeError | TypeError | IndexError

text \<open>Truth value of a Python object, as \<^verbatim>\<open>if x\<close>, \<^verbatim>\<open>not x\<close> and \<^verbatim>\<open>all([...])\<close> use it.\<close>

fun py_truthy :: "json \<Rightarrow> bool" where
  "py_truthy JNull = False"
| "py_truthy (JBool b) = b"
| "py_truthy (JNum n) = (n \<noteq> 0)"
| "py_truthy (JStr s) = (s \<noteq> [])"
| "py_truthy (JArr xs) = (xs \<noteq> [])"
| "py_truthy (JObj kvs) = (kvs \<noteq> [])"

text \<open>
  \<^verbatim>\<open>x.get(key, default)\<close>: only a dict has the method, every other value raises
  AttributeError. \<open>is_dict\<close> is the test for the raise, \<open>get\<close> the value on a dict.
\<close>

fun is_dict :: "json \<Rightarrow> bool" where
  "is_dict (JObj kvs) = True"
| "is_dict v = False"

fun get :: "json \<Rightarrow> string \<Rightarrow> json \<Rightarrow> json" where
  "get (JObj kvs) k d = (case map_of kvs k of None \<Rightarrow> d | Some v \<Rightarrow> v)"
| "get v k d = d"

text \<open>
  \<^verbatim>\<open>for x in v\<close> and \<^verbatim>\<open>list.extend(v)\<close>: a list gives its elements, a dict its
  keys, a string its characters (as strings); \<^verbatim>\<open>None\<close>, a boolean and a number raise
  TypeError.
\<close>

fun iterate :: "json \<Rightarrow> exc + json list" where
  "iterate (JArr xs) = Inr xs"
| "iterate (JObj kvs) = Inr (map (\<lambda>kv. JStr (fst kv)) kvs)"
| "iterate (JStr s) = Inr (map (\<lambda>c. JStr [c]) s)"
| "iterate v = Inl TypeError"

text \<open>The default texts of the source, in UTF-8.\<close>

definition unknown_error :: string where
  "unknown_error = [CHR 0xE6, CHR 0x9C, CHR 0xAA, CHR 0xE7, CHR 0x9F, CHR 0xA5,
                    CHR 0xE9, CHR 0x94, CHR 0x99, CHR 0xE8, CHR 0xAF, CHR 0xAF]"

definition unknown_floor :: string where
  "unknown_floor = [CHR 0xE6, CHR 0x9C, CHR 0xAA, CHR 0xE7, CHR 0x9F, CHR 0xA5,
                    CHR 0xE6, CHR 0xA5, CHR 0xBC, CHR 0xE5, CHR 0xB1, CHR 0x82]"

definition unknown_room :: string where
  "unknown_room = [CHR 0xE6, CHR 0x9C, CHR 0xAA, CHR 0xE7, CHR 0x9F, CHR 0xA5,
                   CHR 0xE6, CHR 0x88, CHR 0xBF, CHR 0xE9, CHR 0x97, CHR 0xB4]"

section \<open>The session, the server and the console\<close>

text \<open>
  A request is kept by its parts, not as the URL text: the floor request carries
  \<^verbatim>\<open>buildingId\<close>, \<^verbatim>\<open>subId\<close> and the value put after \<^verbatim>\<open>floorId=\<close> (\<open>None\<close> for the
  first request, which leaves it empty); the reservation request carries the form data.
  A call \<^verbatim>\<open>session.post\<close>, \<^verbatim>\<open>raise_for_status\<close>, \<^verbatim>\<open>response.json()\<close> ends in one of
  three ways: an exception that the \<^verbatim>\<open>RequestException\<close> clause handles, an exception
  that the \<^verbatim>\<open>json.JSONDecodeError\<close> clause handles, or the decoded body.
  The server is any function of the number of calls made so far and the request.
\<close>

datatype request =
    FloorShow string string "json option"
  | SaveChosen "(string \<times> json) list"

datatype response = RequestFailed | NotJson | JsonBody json

type_synonym server = "nat \<Rightarrow> request \<Rightarrow> response"

text \<open>
  Every \<^verbatim>\<open>print\<close> of \<^verbatim>\<open>get_and_display_rooms\<close> and of \<^verbatim>\<open>select_bed\<close>, by source
  line, with the values it formats.
\<close>

datatype rooms_msg =
    MsgStep3                     \<comment> \<open>line 144\<close>
  | MsgApiError json             \<comment> \<open>line 154\<close>
  | MsgNoFloors                  \<comment> \<open>line 160\<close>
  | MsgFetchingFloor json        \<comment> \<open>line 170\<close>
  | MsgNoRooms                   \<comment> \<open>line 181\<close>
  | MsgListHeader                \<comment> \<open>line 184\<close>
  | MsgRoom json json            \<comment> \<open>line 199: floor name, room name\<close>
  | MsgBed json json             \<comment> \<open>line 201: bed name, price\<close>
  | MsgAllFull                   \<comment> \<open>line 204\<close>
  | MsgListFooter                \<comment> \<open>line 207\<close>
  | MsgNetFailed                 \<comment> \<open>line 211\<close>
  | MsgBadJson                   \<comment> \<open>line 214\<close>

datatype select_msg =
    MsgStep4                     \<comment> \<open>line 223\<close>
  | MsgNotFound                  \<comment> \<open>line 247\<close>
  | MsgConfirm                   \<comment> \<open>line 250\<close>
  | MsgConfirmRoom string json   \<comment> \<open>line 251\<close>
  | MsgConfirmBed string json    \<comment> \<open>line 252\<close>
  | MsgPostData "(string \<times> json) list"   \<comment> \<open>line 263\<close>
  | MsgCancelled                 \<comment> \<open>line 267\<close>
  | MsgSubmitting                \<comment> \<open>line 273\<close>
  | MsgSuccess json              \<comment> \<open>line 280\<close>
  | MsgFailure json              \<comment> \<open>line 282\<close>
  | MsgSubmitNetFailed           \<comment> \<open>line 285\<close>
  | MsgSubmitBadJson             \<comment> \<open>line 287\<close>
  | MsgUnknownError exc          \<comment> \<open>line 289\<close>

text \<open>
  The world a function runs in: the calls made so far, each with the way it ended, and
  the lines printed so far.
\<close>

record 'm world =
  calls :: "(request \<times> response) list"
  printed :: "'m list"

definition start :: "'m world" where
  "start = \<lparr>calls = [], printed = []\<rparr>"

definition pr :: "'m \<Rightarrow> 'm world \<Rightarrow> 'm world" where
  "pr m w = w\<lparr>printed := printed w @ [m]\<rparr>"

definition post :: "server \<Rightarrow> request \<Rightarrow> 'm world \<Rightarrow> response \<times> 'm world" where
  "post srv rq w =
     (let r = srv (length (calls w)) rq in (r, w\<lparr>calls := calls w @ [(rq, r)]\<rparr>))"

section \<open>select_bed\<close>

record params =
  token :: string
  buildingId :: string
  studentName :: string
  deptName :: string
  subId :: string

text \<open>
  The three variables \<^verbatim>\<open>target_room_id\<close>, \<^verbatim>\<open>target_bed_id\<close>, \<^verbatim>\<open>target_floor_id\<close>,
  all \<^verbatim>\<open>None\<close> before the loops (lines 227 to 229).
\<close>

type_synonym targets = "json \<times> json \<times> json"

definition no_targets :: targets where
  "no_targets = (JNull, JNull, JNull)"

definition target_bed_id :: "targets \<Rightarrow> json" where
  "target_bed_id t = fst (snd t)"

text \<open>Lines 192 and 236: the status marker of a bed that can be chosen.\<close>

definition not_chosen :: "json \<Rightarrow> bool" where
  "not_chosen bed = (get bed ''choose'' JNull = JStr ''notCho'')"

text \<open>Lines 235 to 240: the loop over the beds of one room stops at the first bed that matches.\<close>

fun scan_beds :: "string \<Rightarrow> json list \<Rightarrow> exc + json option" where
  "scan_beds bn [] = Inr None"
| "scan_beds bn (bed # beds) =
     (if \<not> is_dict bed then Inl AttributeError
      else if get bed ''name'' JNull = JStr bn \<and> not_chosen bed
      then Inr (Some bed)
      else scan_beds bn beds)"

text \<open>
  Lines 233 to 242: the loop over the rooms of one floor. A room of another name is passed
  over. In a room of the requested name a matching bed sets the three variables; the loop
  stops only when \<^verbatim>\<open>target_bed_id\<close> is true.
\<close>

fun scan_rooms :: "string \<Rightarrow> string \<Rightarrow> json list \<Rightarrow> targets \<Rightarrow> exc + targets" where
  "scan_rooms rn bn [] t = Inr t"
| "scan_rooms rn bn (room # rooms) t =
     (if \<not> is_dict room then Inl AttributeError
      else if get room ''name'' JNull \<noteq> JStr rn then scan_rooms rn bn rooms t
      else (case iterate (get room ''bed'' (JArr [])) of
              Inl e \<Rightarrow> Inl e
            | Inr beds \<Rightarrow>
               (case scan_beds bn beds of
                  Inl e \<Rightarrow> Inl e
                | Inr found \<Rightarrow>
                   (let t' = (case found of
                                None \<Rightarrow> t
                              | Some bed \<Rightarrow> (get room ''id'' JNull, get bed ''id'' JNull,
                                             get room ''floorId'' JNull))
                    in if py_truthy (target_bed_id t') then Inr t'
                       else scan_rooms rn bn rooms t'))))"

text \<open>Lines 232 to 244: the loop over the floors.\<close>

fun scan_floors :: "string \<Rightarrow> string \<Rightarrow> json list \<Rightarrow> targets \<Rightarrow> exc + targets" where
  "scan_floors rn bn [] t = Inr t"
| "scan_floors rn bn (floor # floors) t =
     (if \<not> is_dict floor then Inl AttributeError
      else (case iterate (get floor ''room'' (JArr [])) of
              Inl e \<Rightarrow> Inl e
            | Inr rooms \<Rightarrow>
               (case scan_rooms rn bn rooms t of
                  Inl e \<Rightarrow> Inl e
                | Inr t' \<Rightarrow>
                   if py_truthy (target_bed_id t') then Inr t'
                   else scan_floors rn bn floors t')))"

text \<open>Lines 253 to 262: the form data, in the order the dict is built.\<close>

definition post_data :: "targets \<Rightarrow> params \<Rightarrow> (string \<times> json) list" where
  "post_data t p =
     (case t of (room_id, bed_id, floor_id) \<Rightarrow>
       [(''roomId'', room_id), (''bedId'', bed_id), (''floorId'', floor_id),
        (''token'', JStr (token p)), (''buildingId'', JStr (buildingId p)),
        (''studentName'', JStr (studentName p)), (''deptName'', JStr (deptName p)),
        (''subId'', JStr (subId p))])"

text \<open>Line 246: \<^verbatim>\<open>all([target_room_id, target_bed_id, target_floor_id])\<close>.\<close>

definition all_targets :: "targets \<Rightarrow> bool" where
  "all_targets t = (case t of (room_id, bed_id, floor_id) \<Rightarrow>
     py_truthy room_id \<and> py_truthy bed_id \<and> py_truthy floor_id)"

text \<open>Lines 273 to 282: the request and the reading of its answer.\<close>

definition submit ::
  "server \<Rightarrow> (string \<times> json) list \<Rightarrow> select_msg world \<Rightarrow>
     (exc + unit) \<times> select_msg world" where
  "submit srv pd w =
     (case post srv (SaveChosen pd) (pr MsgSubmitting w) of
        (RequestFailed, w') \<Rightarrow> (Inl RequestException, w')
      | (NotJson, w') \<Rightarrow> (Inl JSONDecodeError, w')
      | (JsonBody result, w') \<Rightarrow>
          if \<not> is_dict result then (Inl AttributeError, w')
          else if get result ''status'' JNull = JStr ''success''
          then (Inr (), pr (MsgSuccess (get result ''data'' JNull)) w')
          else (Inr (), pr (MsgFailure (get result ''message'' (JStr unknown_error))) w'))"

text \<open>
  The body of the \<^verbatim>\<open>try\<close> (lines 223 to 282). The two names are what \<^verbatim>\<open>input().strip()\<close>
  gave, \<open>confirm\<close> what \<^verbatim>\<open>input().strip().lower()\<close> gave.
\<close>

definition select_bed_try ::
  "server \<Rightarrow> json list \<Rightarrow> params \<Rightarrow> string \<Rightarrow> string \<Rightarrow> string \<Rightarrow> select_msg world \<Rightarrow>
     (exc + unit) \<times> select_msg world" where
  "select_bed_try srv all_rooms_data p target_room_name target_bed_name confirm w =
     (let w1 = pr MsgStep4 w in
      case scan_floors target_room_name target_bed_name all_rooms_data no_targets of
        Inl e \<Rightarrow> (Inl e, w1)
      | Inr t \<Rightarrow>
          if \<not> all_targets t then (Inr (), pr MsgNotFound w1)
          else
            (let w2 = pr (MsgPostData (post_data t p))
                       (pr (MsgConfirmBed target_bed_name (target_bed_id t))
                         (pr (MsgConfirmRoom target_room_name (fst t))
                           (pr MsgConfirm w1)))
             in if confirm \<noteq> ''y'' then (Inr (), pr MsgCancelled w2)
                else submit srv (post_data t p) w2))"

text \<open>
  The function with its \<^verbatim>\<open>except\<close> clauses (lines 284 to 289): every exception is handled
  by a message, and the function returns \<^verbatim>\<open>None\<close> on every path, so its result is the
  world it leaves.
\<close>

definition select_bed ::
  "server \<Rightarrow> json list \<Rightarrow> params \<Rightarrow> string \<Rightarrow> string \<Rightarrow> string \<Rightarrow> select_msg world \<Rightarrow>
     select_msg world" where
  "select_bed srv all_rooms_data p target_room_name target_bed_name confirm w =
     (case select_bed_try srv all_rooms_data p target_room_name target_bed_name confirm w of
        (Inr u, w') \<Rightarrow> w'
      | (Inl RequestException, w') \<Rightarrow> pr MsgSubmitNetFailed w'
      | (Inl JSONDecodeError, w') \<Rightarrow> pr MsgSubmitBadJson w'
      | (Inl e, w') \<Rightarrow> pr (MsgUnknownError e) w')"

section \<open>get_and_display_rooms\<close>

text \<open>
  Lines 166 to 178: one request for every entry of the floor list, in order; the floor
  records of every answer are appended to \<^verbatim>\<open>all_rooms_data\<close>. An answer whose
  \<^verbatim>\<open>data.floor\<close> is missing or empty adds nothing.
\<close>

fun fetch_floors ::
  "server \<Rightarrow> string \<Rightarrow> string \<Rightarrow> json list \<Rightarrow> json list \<Rightarrow> rooms_msg world \<Rightarrow>
     (exc + json list) \<times> rooms_msg world" where
  "fetch_floors srv building_id sub_id [] all_rooms_data w = (Inr all_rooms_data, w)"
| "fetch_floors srv building_id sub_id (floor_sel # sels) all_rooms_data w =
     (if \<not> is_dict floor_sel then (Inl AttributeError, w)
      else
        (case post srv (FloorShow building_id sub_id (Some (get floor_sel ''floorId'' JNull)))
                (pr (MsgFetchingFloor (get floor_sel ''no'' (JStr unknown_floor))) w) of
           (RequestFailed, w') \<Rightarrow> (Inl RequestException, w')
         | (NotJson, w') \<Rightarrow> (Inl JSONDecodeError, w')
         | (JsonBody body, w') \<Rightarrow>
             if \<not> is_dict body then (Inl AttributeError, w')
             else if \<not> is_dict (get body ''data'' (JObj [])) then (Inl AttributeError, w')
             else
               (let floor_data = get (get body ''data'' (JObj [])) ''floor'' (JArr [])
                in if \<not> py_truthy floor_data
                   then fetch_floors srv building_id sub_id sels all_rooms_data w'
                   else (case iterate floor_data of
                           Inl e \<Rightarrow> (Inl e, w')
                         | Inr items \<Rightarrow>
                             fetch_floors srv building_id sub_id sels
                               (all_rooms_data @ items) w'))))"

text \<open>Lines 190 to 196: the beds of one room that can be chosen, each by name and price.\<close>

fun available_beds_in_room :: "json list \<Rightarrow> exc + (json \<times> json) list" where
  "available_beds_in_room [] = Inr []"
| "available_beds_in_room (bed # beds) =
     (if \<not> is_dict bed then Inl AttributeError
      else (case available_beds_in_room beds of
              Inl e \<Rightarrow> Inl e
            | Inr others \<Rightarrow>
                if not_chosen bed
                then Inr ((get bed ''name'' JNull, get bed ''bedPrice'' JNull) # others)
                else Inr others))"

text \<open>Lines 189 to 201: the lines printed for one room; none when no bed can be chosen.\<close>

definition show_room :: "json \<Rightarrow> json \<Rightarrow> exc + rooms_msg list" where
  "show_room floor_name room =
     (if \<not> is_dict room then Inl AttributeError
      else (case iterate (get room ''bed'' (JArr [])) of
              Inl e \<Rightarrow> Inl e
            | Inr beds \<Rightarrow>
               (case available_beds_in_room beds of
                  Inl e \<Rightarrow> Inl e
                | Inr available \<Rightarrow>
                    Inr (if available = [] then []
                         else MsgRoom floor_name (get room ''name'' (JStr unknown_room))
                              # map (\<lambda>(bed_name, price). MsgBed bed_name price) available))))"

text \<open>
  Lines 188 to 201 and 186 to 201: the loops over the rooms of a floor and over the floor
  records. The flag is \<^verbatim>\<open>available_beds_found\<close>.
\<close>

fun show_rooms ::
  "json \<Rightarrow> json list \<Rightarrow> bool \<Rightarrow> rooms_msg world \<Rightarrow> (exc + bool) \<times> rooms_msg world" where
  "show_rooms floor_name [] found w = (Inr found, w)"
| "show_rooms floor_name (room # rooms) found w =
     (case show_room floor_name room of
        Inl e \<Rightarrow> (Inl e, w)
      | Inr lines \<Rightarrow>
          show_rooms floor_name rooms (found \<or> lines \<noteq> [])
            (w\<lparr>printed := printed w @ lines\<rparr>))"

fun show_floors ::
  "json list \<Rightarrow> bool \<Rightarrow> rooms_msg world \<Rightarrow> (exc + bool) \<times> rooms_msg world" where
  "show_floors [] found w = (Inr found, w)"
| "show_floors (floor # floors) found w =
     (if \<not> is_dict floor then (Inl AttributeError, w)
      else (case iterate (get floor ''room'' (JArr [])) of
              Inl e \<Rightarrow> (Inl e, w)
            | Inr rooms \<Rightarrow>
               (case show_rooms (get floor ''no'' (JStr unknown_floor)) rooms found w of
                  (Inl e, w') \<Rightarrow> (Inl e, w')
                | (Inr found', w') \<Rightarrow> show_floors floors found' w')))"

text \<open>
  The body of the \<^verbatim>\<open>try\<close> (lines 144 to 208). The value is what the function returns,
  \<open>None\<close> or the list \<^verbatim>\<open>all_rooms_data\<close>, or the exception raised.
\<close>

definition get_and_display_rooms_try ::
  "server \<Rightarrow> string \<Rightarrow> string \<Rightarrow> rooms_msg world \<Rightarrow>
     (exc + json list option) \<times> rooms_msg world" where
  "get_and_display_rooms_try srv building_id sub_id w =
     (case post srv (FloorShow building_id sub_id None) (pr MsgStep3 w) of
        (RequestFailed, w1) \<Rightarrow> (Inl RequestException, w1)
      | (NotJson, w1) \<Rightarrow> (Inl JSONDecodeError, w1)
      | (JsonBody data, w1) \<Rightarrow>
          if \<not> is_dict data then (Inl AttributeError, w1)
          else if get data ''status'' JNull \<noteq> JStr ''success''
          then (Inr None, pr (MsgApiError (get data ''message'' (JStr unknown_error))) w1)
          else if \<not> is_dict (get data ''data'' (JObj [])) then (Inl AttributeError, w1)
          else
            (let floor_select_list = get (get data ''data'' (JObj [])) ''floorSelect'' (JArr [])
             in if \<not> py_truthy floor_select_list then (Inr None, pr MsgNoFloors w1)
                else
                  (case iterate floor_select_list of
                     Inl e \<Rightarrow> (Inl e, w1)
                   | Inr sels \<Rightarrow>
                      (case fetch_floors srv building_id sub_id sels [] w1 of
                         (Inl e, w2) \<Rightarrow> (Inl e, w2)
                       | (Inr all_rooms_data, w2) \<Rightarrow>
                           if all_rooms_data = [] then (Inr None, pr MsgNoRooms w2)
                           else
                             (case show_floors all_rooms_data False (pr MsgListHeader w2) of
                                (Inl e, w3) \<Rightarrow> (Inl e, w3)
                              | (Inr found, w3) \<Rightarrow>
                                  if \<not> found then (Inr None, pr MsgAllFull w3)
                                  else (Inr (Some all_rooms_data), pr MsgListFooter w3))))))"

text \<open>
  The function with its two \<^verbatim>\<open>except\<close> clauses (lines 210 to 215); any other exception
  leaves the function.
\<close>

definition get_and_display_rooms ::
  "server \<Rightarrow> string \<Rightarrow> string \<Rightarrow> rooms_msg world \<Rightarrow>
     (exc + json list option) \<times> rooms_msg world" where
  "get_and_display_rooms srv building_id sub_id w =
     (case get_and_display_rooms_try srv building_id sub_id w of
        (Inl RequestException, w') \<Rightarrow> (Inr None, pr MsgNetFailed w')
      | (Inl JSONDecodeError, w') \<Rightarrow> (Inr None, pr MsgBadJson w')
      | (r, w') \<Rightarrow> (r, w'))"

section \<open>The catalog as the loops read it\<close>

text \<open>
  The rooms of a floor record and the beds of a room, as the loops of both functions reach
  them: \<^verbatim>\<open>floor.get('room', [])\<close> and \<^verbatim>\<open>room.get('bed', [])\<close>.
\<close>

definition iterable :: "json \<Rightarrow> bool" where
  "iterable v = (case iterate v of Inl e \<Rightarrow> False | Inr xs \<Rightarrow> True)"

definition rooms_of :: "json \<Rightarrow> json list" where
  "rooms_of fl = (case iterate (get fl ''room'' (JArr [])) of Inl e \<Rightarrow> [] | Inr rooms \<Rightarrow> rooms)"

definition beds_of :: "json \<Rightarrow> json list" where
  "beds_of room = (case iterate (get room ''bed'' (JArr [])) of Inl e \<Rightarrow> [] | Inr beds \<Rightarrow> beds)"

text \<open>
  A floor record the loops can walk without an exception: the floor, its rooms and their
  beds are dicts.
\<close>

definition wf_room :: "json \<Rightarrow> bool" where
  "wf_room room =
     (is_dict room \<and> iterable (get room ''bed'' (JArr [])) \<and> list_all is_dict (beds_of room))"

definition wf_floor :: "json \<Rightarrow> bool" where
  "wf_floor fl =
     (is_dict fl \<and> iterable (get fl ''room'' (JArr [])) \<and> list_all wf_room (rooms_of fl))"

text \<open>The test of line 236 on one bed.\<close>

definition bed_matches :: "string \<Rightarrow> json \<Rightarrow> bool" where
  "bed_matches bn bed = (get bed ''name'' JNull = JStr bn \<and> not_chosen bed)"

text \<open>The identifiers lines 237 to 239 copy from a room and one of its beds.\<close>

definition ids_of :: "json \<Rightarrow> json \<Rightarrow> targets" where
  "ids_of room bed = (get room ''id'' JNull, get bed ''id'' JNull, get room ''floorId'' JNull)"

text \<open>
  What one room gives the operator's two names: nothing when its name differs or none of
  its beds matches, else the identifiers of its first matching bed.
\<close>

definition room_hit :: "string \<Rightarrow> string \<Rightarrow> json \<Rightarrow> targets option" where
  "room_hit rn bn room =
     (if get room ''name'' JNull \<noteq> JStr rn then None
      else (case find (bed_matches bn) (beds_of room) of
              None \<Rightarrow> None
            | Some bed \<Rightarrow> Some (ids_of room bed)))"

definition stops_at :: "string \<Rightarrow> string \<Rightarrow> json \<Rightarrow> bool" where
  "stops_at rn bn room =
     (case room_hit rn bn room of None \<Rightarrow> False | Some h \<Rightarrow> py_truthy (target_bed_id h))"

text \<open>Some room of the requested name has a bed of the requested name that can be chosen.\<close>

definition offers :: "string \<Rightarrow> string \<Rightarrow> json list \<Rightarrow> bool" where
  "offers rn bn all_rooms_data =
     list_ex (\<lambda>fl. list_ex (\<lambda>room. get room ''name'' JNull = JStr rn \<and>
                                   list_ex (bed_matches bn) (beds_of room))
                           (rooms_of fl))
             all_rooms_data"

text \<open>The three identifiers are those of a room of the requested name and a matching bed of it.\<close>

definition copied_from :: "string \<Rightarrow> string \<Rightarrow> json list \<Rightarrow> targets \<Rightarrow> bool" where
  "copied_from rn bn all_rooms_data t =
     list_ex (\<lambda>fl. list_ex (\<lambda>room. get room ''name'' JNull = JStr rn \<and>
                                   list_ex (\<lambda>bed. bed_matches bn bed \<and> t = ids_of room bed)
                                           (beds_of room))
                           (rooms_of fl))
             all_rooms_data"

text \<open>Some bed of the catalog can be chosen.\<close>

definition any_available :: "json list \<Rightarrow> bool" where
  "any_available all_rooms_data =
     list_ex (\<lambda>fl. list_ex (\<lambda>room. list_ex not_chosen (beds_of room)) (rooms_of fl))
             all_rooms_data"

section \<open>Example data\<close>

text \<open>
  One floor \<open>3F\<close> with the room \<open>Block36-314\<close> (identifier \<open>R1\<close>) and its bed \<open>1\<close>
  (identifier \<open>B1\<close>), free; the same room with the bed taken; with an empty room
  identifier; and a floor with two rooms of one name, the bed of the first taken.
\<close>

definition bed_B1 :: json where
  "bed_B1 = JObj [(''id'', JStr ''B1''), (''name'', JStr ''1''), (''choose'', JStr ''notCho''),
                  (''bedPrice'', JNum 1200)]"

definition bed_B1_taken :: json where
  "bed_B1_taken = JObj [(''id'', JStr ''B1''), (''name'', JStr ''1''), (''choose'', JStr ''hasCho''),
                        (''bedPrice'', JNum 1200)]"

definition bed_B2 :: json where
  "bed_B2 = JObj [(''id'', JStr ''B2''), (''name'', JStr ''1''), (''choose'', JStr ''notCho''),
                  (''bedPrice'', JNum 1200)]"

definition room_R1 :: json where
  "room_R1 = JObj [(''id'', JStr ''R1''), (''name'', JStr ''Block36-314''),
                   (''floorId'', JStr ''F3''), (''bed'', JArr [bed_B1])]"

definition room_R1_taken :: json where
  "room_R1_taken = JObj [(''id'', JStr ''R1''), (''name'', JStr ''Block36-314''),
                         (''floorId'', JStr ''F3''), (''bed'', JArr [bed_B1_taken])]"

definition room_no_id :: json where
  "room_no_id = JObj [(''id'', JStr []), (''name'', JStr ''Block36-314''),
                      (''floorId'', JStr ''F3''), (''bed'', JArr [bed_B1])]"

definition room_R2 :: json where
  "room_R2 = JObj [(''id'', JStr ''R2''), (''name'', JStr ''Block36-314''),
                   (''floorId'', JStr ''F3''), (''bed'', JArr [bed_B2])]"

definition floor_3F :: json where
  "floor_3F = JObj [(''no'', JStr ''3F''), (''room'', JArr [room_R1])]"

definition floor_3F_taken :: json where
  "floor_3F_taken = JObj [(''no'', JStr ''3F''), (''room'', JArr [room_R1_taken])]"

definition floor_no_id :: json where
  "floor_no_id = JObj [(''no'', JStr ''3F''), (''room'', JArr [room_no_id])]"

definition floor_twins :: json where
  "floor_twins = JObj [(''no'', JStr ''3F''), (''room'', JArr [room_R1_taken, room_R2])]"

definition example_params :: params where
  "example_params = \<lparr>token = ''T'', buildingId = ''BLD'', studentName = ''Li'',
                      deptName = ''CS'', subId = ''SUB''\<rparr>"

text \<open>A server that answers every request with a success envelope, and one that refuses.\<close>

definition ok_body :: json where
  "ok_body = JObj [(''status'', JStr ''success''), (''data'', JStr ''OK'')]"

definition ok_server :: server where
  "ok_server n rq = JsonBody ok_body"

definition refusing_body :: json where
  "refusing_body = JObj [(''status'', JStr ''error''), (''message'', JStr ''closed'')]"

definition refusing_server :: server where
  "refusing_server n rq = JsonBody refusing_body"

text \<open>
  A room whose three beds have the marker of a taken bed, the marker \<open>notCho\<close>, and
  the marker written \<open>NotCho\<close>.
\<close>

definition bed_B3 :: json where
  "bed_B3 = JObj [(''id'', JStr ''B3''), (''name'', JStr ''3''), (''choose'', JStr ''NotCho''),
                  (''bedPrice'', JNum 1200)]"

definition bed_B2_named_2 :: json where
  "bed_B2_named_2 = JObj [(''id'', JStr ''B2''), (''name'', JStr ''2''), (''choose'', JStr ''notCho''),
                          (''bedPrice'', JNum 1100)]"

definition room_mixed :: json where
  "room_mixed = JObj [(''id'', JStr ''R1''), (''name'', JStr ''Block36-314''),
                      (''floorId'', JStr ''F3''), (''bed'', JArr [bed_B1_taken, bed_B2_named_2, bed_B3])]"

section \<open>Runs of get_and_display_rooms\<close>

text \<open>A call that was answered with a JSON object.\<close>

fun is_envelope :: "response \<Rightarrow> bool" where
  "is_envelope (JsonBody j) = is_dict j"
| "is_envelope r = False"

text \<open>
  A list of calls and the outcome they led to fit together: every call but the last was
  answered with a JSON object; the outcome is the exception of a failed request, or of a
  body that is not JSON, exactly when the last call ended so; and when the last call was
  answered with JSON that is not an object, the outcome is the AttributeError of
  \<^verbatim>\<open>.get\<close>.
\<close>

definition fits :: "(request \<times> response) list \<Rightarrow> exc + 'a \<Rightarrow> bool" where
  "fits new r =
     (list_all (\<lambda>c. is_envelope (snd c)) (butlast new) \<and>
      ((new \<noteq> [] \<and> snd (last new) = RequestFailed) = (r = Inl RequestException)) \<and>
      ((new \<noteq> [] \<and> snd (last new) = NotJson) = (r = Inl JSONDecodeError)) \<and>
      (new \<noteq> [] \<and> \<not> is_envelope (snd (last new)) \<longrightarrow>
         r = Inl RequestException \<or> r = Inl JSONDecodeError \<or> r = Inl AttributeError))"

text \<open>
  Example servers. The first lists one floor and answers the floor request with the room
  whose only bed is taken; the second lists no floor; the third answers the floor request
  with a body that is not JSON; the fourth answers it with a JSON list.
\<close>

definition listing_body :: json where
  "listing_body = JObj [(''status'', JStr ''success''),
     (''data'', JObj [(''floorSelect'', JArr [JObj [(''floorId'', JStr ''F3''), (''no'', JStr ''3F'')]])])]"

definition no_floor_body :: json where
  "no_floor_body = JObj [(''status'', JStr ''success''), (''data'', JObj [(''floorSelect'', JArr [])])]"

definition full_floor_body :: json where
  "full_floor_body = JObj [(''status'', JStr ''success''), (''data'', JObj [(''floor'', JArr [floor_3F_taken])])]"

fun full_server :: server where
  "full_server n (FloorShow b s None) = JsonBody listing_body"
| "full_server n (FloorShow b s (Some f)) = JsonBody full_floor_body"
| "full_server n rq = RequestFailed"

fun no_floor_server :: server where
  "no_floor_server n (FloorShow b s None) = JsonBody no_floor_body"
| "no_floor_server n rq = RequestFailed"









section \<open>What the list shows\<close>







section \<open>Strings\<close>

text \<open>
  The characters that \<^verbatim>\<open>str.strip()\<close> removes and that \<^verbatim>\<open>\s\<close> matches in a pattern on
  \<^verbatim>\<open>str\<close>: U+0009 to U+000D, U+001C to U+0020, U+0085, U+00A0, U+1680, U+2000 to
  U+200A, U+2028, U+2029, U+202F, U+205F and U+3000, each in UTF-8.
\<close>

definition whitespace :: "string list" where
  "whitespace =
     [[CHR 0x09], [CHR 0x0A], [CHR 0x0B], [CHR 0x0C], [CHR 0x0D],
      [CHR 0x1C], [CHR 0x1D], [CHR 0x1E], [CHR 0x1F], [CHR 0x20],
      [CHR 0xC2, CHR 0x85], [CHR 0xC2, CHR 0xA0],
      [CHR 0xE1, CHR 0x9A, CHR 0x80],
      [CHR 0xE2, CHR 0x80, CHR 0x80], [CHR 0xE2, CHR 0x80, CHR 0x81],
      [CHR 0xE2, CHR 0x80, CHR 0x82], [CHR 0xE2, CHR 0x80, CHR 0x83],
      [CHR 0xE2, CHR 0x80, CHR 0x84], [CHR 0xE2, CHR 0x80, CHR 0x85],
      [CHR 0xE2, CHR 0x80, CHR 0x86], [CHR 0xE2, CHR 0x80, CHR 0x87],
      [CHR 0xE2, CHR 0x80, CHR 0x88], [CHR 0xE2, CHR 0x80, CHR 0x89],
      [CHR 0xE2, CHR 0x80, CHR 0x8A],
      [CHR 0xE2, CHR 0x80, CHR 0xA8], [CHR 0xE2, CHR 0x80, CHR 0xA9],
      [CHR 0xE2, CHR 0x80, CHR 0xAF],
      [CHR 0xE2, CHR 0x81, CHR 0x9F],
      [CHR 0xE3, CHR 0x80, CHR 0x80]]"

text \<open>
  Removing from the front of a string every leading character of a table (the entries of
  the table are not empty).
\<close>

fun lstrip_with :: "string list \<Rightarrow> string \<Rightarrow> string" where
  "lstrip_with table [] = []"
| "lstrip_with table (c # s) =
     (case find (\<lambda>w. prefix w (c # s)) table of
        None \<Rightarrow> c # s
      | Some w \<Rightarrow> lstrip_with table (drop (length w - 1) s))"

definition lstrip :: "string \<Rightarrow> string" where
  "lstrip s = lstrip_with whitespace s"

definition rstrip :: "string \<Rightarrow> string" where
  "rstrip s = rev (lstrip_with (map rev whitespace) (rev s))"

text \<open>\<^verbatim>\<open>s.strip()\<close>.\<close>

definition py_strip :: "string \<Rightarrow> string" where
  "py_strip s = rstrip (lstrip s)"

text \<open>\<^verbatim>\<open>s.replace(old, '')\<close>: every occurrence of \<open>old\<close> is removed, from the left.\<close>

fun remove_all :: "string \<Rightarrow> string \<Rightarrow> string" where
  "remove_all old [] = []"
| "remove_all old (c # s) =
     (if old \<noteq> [] \<and> prefix old (c # s) then remove_all old (drop (length old - 1) s)
      else c # remove_all old s)"

text \<open>The label of line 76, in UTF-8 (the two characters of "college" and a full-width colon).\<close>

definition college_label :: string where
  "college_label = [CHR 0xE5, CHR 0xAD, CHR 0xA6, CHR 0xE9, CHR 0x99, CHR 0xA2,
                    CHR 0xEF, CHR 0xBC, CHR 0x9A]"

text \<open>
  The patterns of lines 115 and 116, \<^verbatim>\<open>subId\s*=\s*'([^']+)';\<close> and the same for
  \<^verbatim>\<open>buildingId\<close>. \<open>match_assignment\<close> matches the pattern at the head of a text and gives
  the group; \<open>re_search\<close> is \<^verbatim>\<open>re.search\<close>, the match at the leftmost position.
\<close>

definition quote :: char where
  "quote = CHR 0x27"

definition match_assignment :: "string \<Rightarrow> string \<Rightarrow> string option" where
  "match_assignment var s =
     (if \<not> prefix var s then None
      else (case lstrip (drop (length var) s) of
              [] \<Rightarrow> None
            | c # s1 \<Rightarrow>
                if c \<noteq> CHR ''='' then None
                else (case lstrip s1 of
                        [] \<Rightarrow> None
                      | q # s2 \<Rightarrow>
                          if q \<noteq> quote then None
                          else (let v = takeWhile (\<lambda>x. x \<noteq> quote) s2;
                                    rest = dropWhile (\<lambda>x. x \<noteq> quote) s2
                                in if v \<noteq> [] \<and> prefix [quote, CHR '';''] rest then Some v
                                   else None))))"

fun re_search :: "string \<Rightarrow> string \<Rightarrow> string option" where
  "re_search var [] = match_assignment var []"
| "re_search var (c # s) =
     (case match_assignment var (c # s) of
        Some v \<Rightarrow> Some v
      | None \<Rightarrow> re_search var s)"

section \<open>get_personal_info and get_selection_params\<close>

text \<open>
  The answer to a GET: an exception that the \<^verbatim>\<open>RequestException\<close> clause handles, or the
  text of the page. BeautifulSoup is not part of the program; what it finds in a text is a
  parameter: \<open>find_personal\<close> gives the texts of the \<^verbatim>\<open>p\<close> tags inside the \<^verbatim>\<open>div\<close> of
  class \<^verbatim>\<open>personal_left\<close>, or \<open>None\<close> when there is no such \<^verbatim>\<open>div\<close>; \<open>find_token\<close> gives
  the attributes of the \<^verbatim>\<open>input\<close> whose \<^verbatim>\<open>id\<close> and \<^verbatim>\<open>name\<close> are \<^verbatim>\<open>token\<close>, or
  \<open>None\<close> when there is none.
\<close>

datatype page = PageFailed | Page string

datatype info_msg =
    MsgStep1                     \<comment> \<open>line 62\<close>
  | MsgNoPersonalInfo            \<comment> \<open>line 71\<close>
  | MsgGotInfo string string     \<comment> \<open>line 78\<close>
  | MsgInfoNetFailed             \<comment> \<open>line 82\<close>
  | MsgInfoParseFailed exc       \<comment> \<open>line 85\<close>

datatype params_msg =
    MsgStep2                     \<comment> \<open>line 94\<close>
  | MsgNoToken                   \<comment> \<open>line 109\<close>
  | MsgNoIds                     \<comment> \<open>line 119\<close>
  | MsgGotParams                 \<comment> \<open>line 125\<close>
  | MsgToken string              \<comment> \<open>line 126\<close>
  | MsgSubId string              \<comment> \<open>line 127\<close>
  | MsgBuildingId string         \<comment> \<open>line 128\<close>
  | MsgParamsNetFailed           \<comment> \<open>line 132\<close>

text \<open>
  Lines 61 to 86. The value is the pair returned, \<open>None\<close> for \<^verbatim>\<open>(None, None)\<close>; with it
  come the lines printed. Indexing \<^verbatim>\<open>p_tags\<close> raises IndexError when there are fewer
  than two tags.
\<close>

definition get_personal_info ::
  "(string \<Rightarrow> string list option) \<Rightarrow> page \<Rightarrow> (string \<times> string) option \<times> info_msg list" where
  "get_personal_info find_personal response =
     (case response of
        PageFailed \<Rightarrow> (None, [MsgStep1, MsgInfoNetFailed])
      | Page text \<Rightarrow>
         (case find_personal text of
            None \<Rightarrow> (None, [MsgStep1, MsgNoPersonalInfo])
          | Some p_tags \<Rightarrow>
             (case p_tags of
                p0 # p1 # others \<Rightarrow>
                  (let name = py_strip p0;
                       college = py_strip (remove_all college_label p1)
                   in (Some (name, college), [MsgStep1, MsgGotInfo name college]))
              | _ \<Rightarrow> (None, [MsgStep1, MsgInfoParseFailed IndexError]))))"

text \<open>
  Lines 93 to 136. The value is the triple returned (token, sub id, building id), \<open>None\<close>
  for \<^verbatim>\<open>(None, None, None)\<close>.
\<close>

definition get_selection_params ::
  "(string \<Rightarrow> (string \<times> string) list option) \<Rightarrow> page \<Rightarrow>
     (string \<times> string \<times> string) option \<times> params_msg list" where
  "get_selection_params find_token response =
     (case response of
        PageFailed \<Rightarrow> (None, [MsgStep2, MsgParamsNetFailed])
      | Page text \<Rightarrow>
         (case find_token text of
            None \<Rightarrow> (None, [MsgStep2, MsgNoToken])
          | Some attrs \<Rightarrow>
             (case map_of attrs ''value'' of
                None \<Rightarrow> (None, [MsgStep2, MsgNoToken])
              | Some tok \<Rightarrow>
                 (case (re_search ''subId'' text, re_search ''buildingId'' text) of
                    (Some sub_id, Some building_id) \<Rightarrow>
                      (Some (tok, sub_id, building_id),
                       [MsgStep2, MsgGotParams, MsgToken tok, MsgSubId sub_id,
                        MsgBuildingId building_id])
                  | _ \<Rightarrow> (None, [MsgStep2, MsgNoIds])))))"

section \<open>What the claims say about the two pages\<close>

text \<open>A run of whitespace characters.\<close>

inductive ws_run :: "string \<Rightarrow> bool" where
  ws_nil: "ws_run []"
| ws_more: "w \<in> set whitespace \<Longrightarrow> ws_run s \<Longrightarrow> ws_run (w @ s)"

text \<open>
  The text holds the statement \<^verbatim>\<open>var = 'v';\<close>: the name, optional whitespace around the
  equals sign, and a value that is not empty and has no quote in it.
\<close>

definition assigns :: "string \<Rightarrow> string \<Rightarrow> string \<Rightarrow> bool" where
  "assigns var text v =
     (\<exists>pre a b post.
        text = pre @ var @ a @ ''='' @ b @ [quote] @ v @ [quote, CHR '';''] @ post \<and>
        ws_run a \<and> ws_run b \<and> v \<noteq> [] \<and> quote \<notin> set v)"

text \<open>
  Following the words of the specification: the second field with the label stripped as
  a prefix.
\<close>

definition strip_label_prefix :: "string \<Rightarrow> string" where
  "strip_label_prefix s =
     (if prefix college_label s then drop (length college_label) s else s)"

text \<open>Example pages, as BeautifulSoup reads them.\<close>

definition profile_fields :: "string \<Rightarrow> string list option" where
  "profile_fields text = Some [''Li'', college_label @ ''Law'' @ college_label @ ''B'']"

definition profile_plain :: "string \<Rightarrow> string list option" where
  "profile_plain text = Some ['' Li '', college_label @ ''Law '']"

definition no_profile :: "string \<Rightarrow> string list option" where
  "no_profile text = None"

definition token_input :: "string \<Rightarrow> (string \<times> string) list option" where
  "token_input text = Some [(''id'', ''token''), (''name'', ''token''), (''value'', ''T0'')]"

definition no_token_input :: "string \<Rightarrow> (string \<times> string) list option" where
  "no_token_input text = None"

definition entry_script :: string where
  "entry_script = ''var subId = '' @ [quote] @ ''S7'' @ [quote] @ ''; var buildingId='' @
                  [quote] @ ''B 9'' @ [quote] @ '';''"

definition entry_script_no_building :: string where
  "entry_script_no_building = ''var subId = '' @ [quote] @ ''S7'' @ [quote] @ '';''"

section \<open>Facts used in the proofs\<close>

lemmas example_defs = bed_B1_def bed_B1_taken_def bed_B2_def room_R1_def room_R1_taken_def
  room_no_id_def room_R2_def floor_3F_def floor_3F_taken_def floor_no_id_def floor_twins_def
  example_params_def ok_body_def ok_server_def refusing_body_def refusing_server_def

lemmas catalog_defs = wf_floor_def wf_room_def iterable_def rooms_of_def beds_of_def
  bed_matches_def not_chosen_def ids_of_def room_hit_def stops_at_def offers_def copied_from_def
  any_available_def target_bed_id_def no_targets_def all_targets_def

lemmas run_defs = select_bed_def select_bed_try_def submit_def post_def pr_def start_def
  post_data_def Let_def

subsection \<open>The scan of select_bed on catalogs it can walk\<close>

lemma scan_beds_find:
  "list_all is_dict beds \<Longrightarrow> scan_beds bn beds = Inr (find (bed_matches bn) beds)"
  by (induction beds) (auto simp: bed_matches_def)

lemma scan_beds_Some:
  "scan_beds bn beds = Inr (Some bed) \<Longrightarrow> bed \<in> set beds \<and> bed_matches bn bed"
  by (induction beds) (auto simp: bed_matches_def split: if_splits)

lemma wf_room_beds:
  "wf_room room \<Longrightarrow> is_dict room \<and> iterate (get room ''bed'' (JArr [])) = Inr (beds_of room) \<and> list_all is_dict (beds_of room)"
  by (auto simp: wf_room_def iterable_def beds_of_def split: sum.splits)

lemma wf_floor_rooms:
  "wf_floor fl \<Longrightarrow> is_dict fl \<and> iterate (get fl ''room'' (JArr [])) = Inr (rooms_of fl) \<and> list_all wf_room (rooms_of fl)"
  by (auto simp: wf_floor_def iterable_def rooms_of_def split: sum.splits)

lemma scan_rooms_step:
  "wf_room room \<Longrightarrow> scan_rooms rn bn (room # rooms) t =
     (case room_hit rn bn room of
        None \<Rightarrow> (if get room ''name'' JNull = JStr rn \<and> py_truthy (target_bed_id t) then Inr t else scan_rooms rn bn rooms t)
      | Some h \<Rightarrow> if py_truthy (target_bed_id h) then Inr h else scan_rooms rn bn rooms h)"
  using wf_room_beds[of room]
  by (auto simp: room_hit_def scan_beds_find ids_of_def Let_def split: option.splits)

lemma scan_rooms_no_hit:
  "list_all wf_room rooms \<Longrightarrow> \<forall>room\<in>set rooms. room_hit rn bn room = None \<Longrightarrow>
   scan_rooms rn bn rooms t = Inr t"
proof (induction rooms)
  case Nil then show ?case by simp
next
  case (Cons room rooms)
  then show ?case by (simp add: scan_rooms_step del: scan_rooms.simps)
qed

lemma scan_floors_step:
  "wf_floor fl \<Longrightarrow> scan_floors rn bn (fl # floors) t =
     (case scan_rooms rn bn (rooms_of fl) t of
        Inl e \<Rightarrow> Inl e
      | Inr t' \<Rightarrow> if py_truthy (target_bed_id t') then Inr t' else scan_floors rn bn floors t')"
  using wf_floor_rooms[of fl] by simp

lemma scan_floors_no_hit:
  "list_all wf_floor cat \<Longrightarrow> \<forall>fl\<in>set cat. \<forall>room\<in>set (rooms_of fl). room_hit rn bn room = None \<Longrightarrow>
   scan_floors rn bn cat t = Inr t"
proof (induction cat)
  case Nil then show ?case by simp
next
  case (Cons fl cat)
  then have "scan_rooms rn bn (rooms_of fl) t = Inr t"
    using wf_floor_rooms[of fl] by (simp add: scan_rooms_no_hit)
  with Cons show ?case by (simp add: scan_floors_step del: scan_floors.simps)
qed

lemma room_hit_None_iff:
  "room_hit rn bn room = None \<longleftrightarrow>
     \<not> (get room ''name'' JNull = JStr rn \<and> list_ex (bed_matches bn) (beds_of room))"
  by (auto simp: room_hit_def find_None_iff list_ex_iff find_Some_iff split: option.splits)

lemma not_offers_no_hit:
  "\<not> offers rn bn cat \<Longrightarrow> \<forall>fl\<in>set cat. \<forall>room\<in>set (rooms_of fl). room_hit rn bn room = None"
  unfolding room_hit_None_iff by (auto simp: offers_def list_ex_iff)

lemma all_targets_no_targets: "\<not> all_targets no_targets"
  by (simp add: all_targets_def no_targets_def)

lemma scan_rooms_prefix:
  "list_all wf_room pre \<Longrightarrow> \<forall>room\<in>set pre. \<not> stops_at rn bn room \<Longrightarrow>
   \<not> py_truthy (target_bed_id t) \<Longrightarrow>
   \<exists>t'. \<not> py_truthy (target_bed_id t') \<and>
        (\<forall>rest. scan_rooms rn bn (pre @ rest) t = scan_rooms rn bn rest t')"
proof (induction pre arbitrary: t)
  case Nil
  then show ?case by (intro exI[of _ t]) simp
next
  case (Cons room pre)
  show ?case
  proof (cases "room_hit rn bn room")
    case None
    from Cons.IH[of t] Cons.prems obtain t' where
      "\<not> py_truthy (target_bed_id t')"
      "\<forall>rest. scan_rooms rn bn (pre @ rest) t = scan_rooms rn bn rest t'"
      by auto
    with None Cons.prems show ?thesis
      by (intro exI[of _ t']) (simp add: scan_rooms_step del: scan_rooms.simps)
  next
    case (Some h)
    with Cons.prems have h: "\<not> py_truthy (target_bed_id h)"
      by (simp add: stops_at_def)
    from Cons.IH[of h] Cons.prems h obtain t' where
      "\<not> py_truthy (target_bed_id t')"
      "\<forall>rest. scan_rooms rn bn (pre @ rest) h = scan_rooms rn bn rest t'"
      by auto
    with Some h Cons.prems show ?thesis
      by (intro exI[of _ t']) (simp add: scan_rooms_step del: scan_rooms.simps)
  qed
qed

lemma scan_rooms_stop:
  "wf_room room \<Longrightarrow> room_hit rn bn room = Some h \<Longrightarrow> py_truthy (target_bed_id h) \<Longrightarrow>
   scan_rooms rn bn (room # rest) t = Inr h"
  by (simp add: scan_rooms_step del: scan_rooms.simps)

lemma scan_floors_prefix:
  "list_all wf_floor fpre \<Longrightarrow>
   \<forall>fl\<in>set fpre. \<forall>room\<in>set (rooms_of fl). \<not> stops_at rn bn room \<Longrightarrow>
   \<not> py_truthy (target_bed_id t) \<Longrightarrow>
   \<exists>t'. \<not> py_truthy (target_bed_id t') \<and>
        (\<forall>rest. scan_floors rn bn (fpre @ rest) t = scan_floors rn bn rest t')"
proof (induction fpre arbitrary: t)
  case Nil
  then show ?case by (intro exI[of _ t]) simp
next
  case (Cons fl fpre)
  from Cons.prems have wf: "wf_floor fl" and rooms: "list_all wf_room (rooms_of fl)"
    using wf_floor_rooms[of fl] by auto
  from scan_rooms_prefix[OF rooms, of rn bn t] Cons.prems obtain t1 where
    t1: "\<not> py_truthy (target_bed_id t1)" "scan_rooms rn bn (rooms_of fl) t = Inr t1"
    by (metis append_Nil2 list.set_intros(1) scan_rooms.simps(1))
  from Cons.IH[of t1] Cons.prems t1 obtain t' where
    "\<not> py_truthy (target_bed_id t')"
    "\<forall>rest. scan_floors rn bn (fpre @ rest) t1 = scan_floors rn bn rest t'"
    by auto
  with t1 wf show ?case
    by (intro exI[of _ t']) (simp add: scan_floors_step del: scan_floors.simps)
qed

lemma scan_rooms_copied:
  "scan_rooms rn bn rooms t = Inr t' \<Longrightarrow>
   t' = t \<or> (\<exists>room\<in>set rooms. get room ''name'' JNull = JStr rn \<and>
               (\<exists>bed\<in>set (beds_of room). bed_matches bn bed \<and> t' = ids_of room bed))"
proof (induction rooms arbitrary: t)
  case Nil
  then show ?case by simp
next
  case (Cons room rooms)
  show ?case
  proof (cases "is_dict room \<and> get room ''name'' JNull = JStr rn")
    case False
    with Cons.prems have "scan_rooms rn bn rooms t = Inr t'"
      by (auto split: if_splits)
    from Cons.IH[OF this] show ?thesis by auto
  next
    case True
    with Cons.prems obtain beds found where
      beds: "iterate (get room ''bed'' (JArr [])) = Inr beds"
      and found: "scan_beds bn beds = Inr found"
      by (auto split: sum.splits)
    have bo: "beds_of room = beds" using beds by (simp add: beds_of_def)
    show ?thesis
    proof (cases found)
      case None
      with Cons.prems True beds found have "t' = t \<or> scan_rooms rn bn rooms t = Inr t'"
        by (auto split: if_splits)
      with Cons.IH[of t] show ?thesis by auto
    next
      case (Some bed)
      with found have m: "bed \<in> set beds" "bed_matches bn bed"
        using scan_beds_Some by auto
      from Cons.prems True beds found Some
      have "t' = ids_of room bed \<or> scan_rooms rn bn rooms (ids_of room bed) = Inr t'"
        by (auto simp: ids_of_def Let_def split: if_splits)
      with Cons.IH[of "ids_of room bed"] m bo True show ?thesis by auto
    qed
  qed
qed

lemma scan_floors_copied:
  "scan_floors rn bn cat t = Inr t' \<Longrightarrow> t' = t \<or> copied_from rn bn cat t'"
proof (induction cat arbitrary: t)
  case Nil
  then show ?case by simp
next
  case (Cons fl cat)
  from Cons.prems obtain rooms t1 where
    rooms: "iterate (get fl ''room'' (JArr [])) = Inr rooms"
    and t1: "scan_rooms rn bn rooms t = Inr t1"
    and rest: "t' = t1 \<or> scan_floors rn bn cat t1 = Inr t'"
    by (auto split: if_splits sum.splits)
  have ro: "rooms_of fl = rooms" using rooms by (simp add: rooms_of_def)
  from scan_rooms_copied[OF t1] ro
  have a: "t1 = t \<or> copied_from rn bn (fl # cat) t1"
    by (auto simp: copied_from_def list_ex_iff)
  from rest Cons.IH[of t1]
  have b: "t' = t1 \<or> copied_from rn bn (fl # cat) t'"
    by (auto simp: copied_from_def list_ex_iff)
  from a b show ?case by auto
qed

lemma select_bed_calls:
  "calls (select_bed srv cat p rn bn c w) =
     (case scan_floors rn bn cat no_targets of
        Inl e \<Rightarrow> calls w
      | Inr t \<Rightarrow>
          if all_targets t \<and> c = ''y''
          then calls w @ [(SaveChosen (post_data t p),
                           srv (length (calls w)) (SaveChosen (post_data t p)))]
          else calls w)"
  by (simp add: select_bed_def select_bed_try_def submit_def post_def pr_def Let_def
           split: sum.splits exc.splits response.splits)





lemma copied_from_iff:
  "copied_from rn bn cat (a, b, c) =
     (\<exists>fl room bed. fl \<in> set cat \<and> room \<in> set (rooms_of fl) \<and> bed \<in> set (beds_of room) \<and>
        get room ''name'' JNull = JStr rn \<and> get bed ''name'' JNull = JStr bn \<and>
        get bed ''choose'' JNull = JStr ''notCho'' \<and>
        a = get room ''id'' JNull \<and> b = get bed ''id'' JNull \<and> c = get room ''floorId'' JNull)"
  by (auto simp: copied_from_def list_ex_iff bed_matches_def not_chosen_def ids_of_def)

lemma post_data_fields:
  "post_data (a, b, c) p =
     [(''roomId'', a), (''bedId'', b), (''floorId'', c),
      (''token'', JStr (token p)), (''buildingId'', JStr (buildingId p)),
      (''studentName'', JStr (studentName p)), (''deptName'', JStr (deptName p)),
      (''subId'', JStr (subId p))]"
  by (simp add: post_data_def)

lemma select_bed_posted:
  assumes "calls (select_bed srv cat p rn bn c w) \<noteq> calls w"
  shows "\<exists>fl room bed. fl \<in> set cat \<and> room \<in> set (rooms_of fl) \<and> bed \<in> set (beds_of room) \<and>
           get room ''name'' JNull = JStr rn \<and> get bed ''name'' JNull = JStr bn \<and>
           get bed ''choose'' JNull = JStr ''notCho'' \<and>
           py_truthy (get room ''id'' JNull) \<and> py_truthy (get bed ''id'' JNull) \<and>
           py_truthy (get room ''floorId'' JNull) \<and>
           calls (select_bed srv cat p rn bn c w) =
             calls w @
             [(SaveChosen (post_data (get room ''id'' JNull, get bed ''id'' JNull,
                                      get room ''floorId'' JNull) p),
               srv (length (calls w))
                 (SaveChosen (post_data (get room ''id'' JNull, get bed ''id'' JNull,
                                         get room ''floorId'' JNull) p)))]"
proof (cases "scan_floors rn bn cat no_targets")
  case (Inl e)
  with assms show ?thesis by (simp add: select_bed_calls)
next
  case (Inr t)
  obtain a b d where t: "t = (a, b, d)" by (cases t) auto
  from assms Inr have all: "all_targets t" and y: "c = ''y''"
    by (auto simp: select_bed_calls split: if_splits)
  from scan_floors_copied[OF Inr] all all_targets_no_targets
  have "copied_from rn bn cat (a, b, d)" using t by auto
  then obtain fl room bed where m: "fl \<in> set cat" "room \<in> set (rooms_of fl)"
    "bed \<in> set (beds_of room)" "get room ''name'' JNull = JStr rn"
    "get bed ''name'' JNull = JStr bn" "get bed ''choose'' JNull = JStr ''notCho''"
    "a = get room ''id'' JNull" "b = get bed ''id'' JNull" "d = get room ''floorId'' JNull"
    unfolding copied_from_iff by blast
  from all t m(7,8,9) have tr: "py_truthy (get room ''id'' JNull)"
    "py_truthy (get bed ''id'' JNull)" "py_truthy (get room ''floorId'' JNull)"
    by (simp_all add: all_targets_def)
  from Inr all y t m(7,8,9)
  have "calls (select_bed srv cat p rn bn c w) =
             calls w @
             [(SaveChosen (post_data (get room ''id'' JNull, get bed ''id'' JNull,
                                      get room ''floorId'' JNull) p),
               srv (length (calls w))
                 (SaveChosen (post_data (get room ''id'' JNull, get bed ''id'' JNull,
                                         get room ''floorId'' JNull) p)))]"
    by (simp add: select_bed_calls)
  with m(1-6) tr show ?thesis by blast
qed


section \<open>select_bed: the claims\<close>

text \<open>
  C2, as stated, fails. The catalog \<open>[floor_twins]\<close> has two rooms named \<open>Block36-314\<close>;
  the first has no bed \<open>1\<close> that can be chosen, and \<^verbatim>\<open>select_bed\<close> goes on to the second
  and posts its identifiers \<open>R2\<close> and \<open>B2\<close>: the loop over the rooms stops only when
  \<^verbatim>\<open>target_bed_id\<close> is set (lines 241 and 243), not at the first room of the name.
\<close>

theorem twin_room_selected:
  "get room_R1_taken ''name'' JNull = get room_R2 ''name'' JNull \<and>
   room_hit ''Block36-314'' ''1'' room_R1_taken = None \<and>
   calls (select_bed ok_server [floor_twins] example_params ''Block36-314'' ''1'' ''y'' start)
     = [(SaveChosen [(''roomId'', JStr ''R2''), (''bedId'', JStr ''B2''), (''floorId'', JStr ''F3''),
                     (''token'', JStr ''T''), (''buildingId'', JStr ''BLD''),
                     (''studentName'', JStr ''Li''), (''deptName'', JStr ''CS''),
                     (''subId'', JStr ''SUB'')],
         JsonBody ok_body)]"
  by (simp add: example_defs catalog_defs run_defs)

text \<open>
  C2, amended: \<^verbatim>\<open>select_bed\<close> resolves the two names against the first room, in catalog
  order, that has the requested name and whose first bed of the requested name with the
  marker \<open>notCho\<close> has a true (non-empty) identifier. Earlier rooms, of the same name or
  not, that give no such bed are passed over; the rooms and floors after it are never
  examined (\<open>rpost\<close> and \<open>fpost\<close> are arbitrary values).
\<close>

theorem first_stopping_room_wins:
  assumes "list_all wf_floor fpre"
    and "list_all (\<lambda>f. \<not> list_ex (stops_at rn bn) (rooms_of f)) fpre"
    and "is_dict fl"
    and "iterate (get fl ''room'' (JArr [])) = Inr (rpre @ room # rpost)"
    and "list_all wf_room rpre"
    and "\<not> list_ex (stops_at rn bn) rpre"
    and "wf_room room"
    and "room_hit rn bn room = Some h"
    and "py_truthy (target_bed_id h)"
  shows "scan_floors rn bn (fpre @ fl # fpost) no_targets = Inr h"
proof -
  have n: "\<not> py_truthy (target_bed_id no_targets)"
    by (simp add: no_targets_def target_bed_id_def)
  have f: "\<forall>f\<in>set fpre. \<forall>r\<in>set (rooms_of f). \<not> stops_at rn bn r"
    using assms(2) by (auto simp: list_all_iff list_ex_iff)
  have r: "\<forall>r\<in>set rpre. \<not> stops_at rn bn r"
    using assms(6) by (auto simp: list_ex_iff)
  from scan_floors_prefix[OF assms(1) f n] obtain t1 where
    t1: "\<not> py_truthy (target_bed_id t1)"
        "scan_floors rn bn (fpre @ fl # fpost) no_targets = scan_floors rn bn (fl # fpost) t1"
    by blast
  from scan_rooms_prefix[OF assms(5) r t1(1)] obtain t2 where
    "scan_rooms rn bn (rpre @ room # rpost) t1 = scan_rooms rn bn (room # rpost) t2"
    by blast
  then have "scan_rooms rn bn (rpre @ room # rpost) t1 = Inr h"
    using scan_rooms_stop[OF assms(7,8,9)] by simp
  then have "scan_floors rn bn (fl # fpost) t1 = Inr h"
    using assms(3,4,9) by simp
  with t1 show ?thesis by simp
qed

theorem first_stopping_room_wins_witness:
  "list_all wf_floor [floor_3F_taken] \<and>
   list_all (\<lambda>f. \<not> list_ex (stops_at ''Block36-314'' ''1'') (rooms_of f)) [floor_3F_taken] \<and>
   is_dict floor_twins \<and>
   iterate (get floor_twins ''room'' (JArr [])) = Inr ([room_R1_taken] @ room_R2 # []) \<and>
   list_all wf_room [room_R1_taken] \<and>
   \<not> list_ex (stops_at ''Block36-314'' ''1'') [room_R1_taken] \<and>
   wf_room room_R2 \<and>
   room_hit ''Block36-314'' ''1'' room_R2 = Some (JStr ''R2'', JStr ''B2'', JStr ''F3'') \<and>
   py_truthy (target_bed_id (JStr ''R2'', JStr ''B2'', JStr ''F3'')) \<and>
   scan_floors ''Block36-314'' ''1'' ([floor_3F_taken] @ floor_twins # [JNull]) no_targets
     = Inr (JStr ''R2'', JStr ''B2'', JStr ''F3'')"
proof -
  have h1: "list_all wf_floor [floor_3F_taken]"
    by (simp add: example_defs catalog_defs)
  have h2: "list_all (\<lambda>f. \<not> list_ex (stops_at ''Block36-314'' ''1'') (rooms_of f)) [floor_3F_taken]"
    by (simp add: example_defs catalog_defs)
  have h3: "is_dict floor_twins"
    by (simp add: example_defs)
  have h4: "iterate (get floor_twins ''room'' (JArr [])) = Inr ([room_R1_taken] @ room_R2 # [])"
    by (simp add: floor_twins_def)
  have h5: "list_all wf_room [room_R1_taken]"
    by (simp add: example_defs catalog_defs)
  have h6: "\<not> list_ex (stops_at ''Block36-314'' ''1'') [room_R1_taken]"
    by (simp add: example_defs catalog_defs)
  have h7: "wf_room room_R2"
    by (simp add: example_defs catalog_defs)
  have h8: "room_hit ''Block36-314'' ''1'' room_R2 = Some (JStr ''R2'', JStr ''B2'', JStr ''F3'')"
    by (simp add: example_defs catalog_defs)
  have h9: "py_truthy (target_bed_id (JStr ''R2'', JStr ''B2'', JStr ''F3''))"
    by (simp add: target_bed_id_def)
  from first_stopping_room_wins[OF h1 h2 h3 h4 h5 h6 h7 h8 h9, of "[JNull]"]
    h1 h2 h3 h4 h5 h6 h7 h8 h9
  show ?thesis by blast
qed

text \<open>
  C4: when no room of the requested name has a bed of the requested name with the marker
  \<open>notCho\<close>, \<^verbatim>\<open>select_bed\<close> prints the not-found message (line 247) and nothing else
  after its prompt, and makes no call: the world it leaves has the calls it started with.
  The catalog is one the loops can walk (floors, rooms and beds are dicts), as every
  catalog that \<^verbatim>\<open>get_and_display_rooms\<close> returns is.
\<close>

theorem select_bed_not_found:
  assumes "list_all wf_floor all_rooms_data"
    and "\<not> offers target_room_name target_bed_name all_rooms_data"
  shows "select_bed srv all_rooms_data p target_room_name target_bed_name confirm w
           = pr MsgNotFound (pr MsgStep4 w)"
proof -
  have "scan_floors target_room_name target_bed_name all_rooms_data no_targets = Inr no_targets"
    using assms by (intro scan_floors_no_hit not_offers_no_hit)
  then show ?thesis
    by (simp add: select_bed_def select_bed_try_def all_targets_no_targets)
qed

theorem select_bed_not_found_witness:
  "list_all wf_floor [floor_3F_taken] \<and> \<not> offers ''Block36-314'' ''1'' [floor_3F_taken] \<and>
   select_bed ok_server [floor_3F_taken] example_params ''Block36-314'' ''1'' ''y'' start
     = pr MsgNotFound (pr MsgStep4 start)"
proof -
  have h1: "list_all wf_floor [floor_3F_taken]"
    by (simp add: example_defs catalog_defs)
  have h2: "\<not> offers ''Block36-314'' ''1'' [floor_3F_taken]"
    by (simp add: example_defs catalog_defs)
  from select_bed_not_found[OF h1 h2] h1 h2 show ?thesis by simp
qed

text \<open>
  C5, as stated, fails: a room of the requested name with a free bed of the requested
  name is not enough. In \<open>floor_no_id\<close> the room's identifier is the empty string;
  \<^verbatim>\<open>all([...])\<close> at line 246 is false, the not-found message is printed and nothing is
  posted, although the operator confirms.
\<close>

theorem empty_room_id_not_posted:
  "offers ''Block36-314'' ''1'' [floor_no_id] \<and>
   select_bed ok_server [floor_no_id] example_params ''Block36-314'' ''1'' ''y'' start
     = \<lparr>calls = [], printed = [MsgStep4, MsgNotFound]\<rparr>"
  by (simp add: example_defs catalog_defs run_defs)

text \<open>
  C5, amended: when the scan resolves the two names to a room, bed and floor identifier
  that are all true (non-empty) and the operator answers \<open>y\<close>, \<^verbatim>\<open>select_bed\<close> makes
  exactly one call, the POST of \<open>roomId\<close>, \<open>bedId\<close>, \<open>floorId\<close>, \<open>token\<close>,
  \<open>buildingId\<close>, \<open>studentName\<close>, \<open>deptName\<close> and \<open>subId\<close>; when the answer is a JSON
  object, the last line printed is the success line with the server's \<open>data\<close> if
  \<open>status\<close> is \<open>success\<close>, and else the failure line with the server's \<open>message\<close>
  (never the line of a failed request).
\<close>

theorem select_bed_posts_once:
  assumes "scan_floors target_room_name target_bed_name all_rooms_data no_targets
             = Inr (room_id, bed_id, floor_id)"
    and "py_truthy room_id" and "py_truthy bed_id" and "py_truthy floor_id"
    and "srv (length (calls w)) (SaveChosen (post_data (room_id, bed_id, floor_id) p))
           = JsonBody result"
    and "is_dict result"
  shows "calls (select_bed srv all_rooms_data p target_room_name target_bed_name ''y'' w)
           = calls w @
             [(SaveChosen
                 [(''roomId'', room_id), (''bedId'', bed_id), (''floorId'', floor_id),
                  (''token'', JStr (token p)), (''buildingId'', JStr (buildingId p)),
                  (''studentName'', JStr (studentName p)), (''deptName'', JStr (deptName p)),
                  (''subId'', JStr (subId p))],
               JsonBody result)] \<and>
         last (printed (select_bed srv all_rooms_data p target_room_name target_bed_name ''y'' w))
           = (if get result ''status'' JNull = JStr ''success''
              then MsgSuccess (get result ''data'' JNull)
              else MsgFailure (get result ''message'' (JStr unknown_error)))"
  using assms by (simp add: run_defs all_targets_def)

theorem select_bed_posts_once_witness:
  "scan_floors ''Block36-314'' ''1'' [floor_3F] no_targets
     = Inr (JStr ''R1'', JStr ''B1'', JStr ''F3'') \<and>
   calls (select_bed ok_server [floor_3F] example_params ''Block36-314'' ''1'' ''y'' start)
     = [(SaveChosen [(''roomId'', JStr ''R1''), (''bedId'', JStr ''B1''), (''floorId'', JStr ''F3''),
                     (''token'', JStr ''T''), (''buildingId'', JStr ''BLD''),
                     (''studentName'', JStr ''Li''), (''deptName'', JStr ''CS''),
                     (''subId'', JStr ''SUB'')],
         JsonBody ok_body)] \<and>
   last (printed (select_bed ok_server [floor_3F] example_params ''Block36-314'' ''1'' ''y'' start))
     = MsgSuccess (JStr ''OK'') \<and>
   last (printed (select_bed refusing_server [floor_3F] example_params ''Block36-314'' ''1'' ''y'' start))
     = MsgFailure (JStr ''closed'')"
proof -
  have h1: "scan_floors ''Block36-314'' ''1'' [floor_3F] no_targets
              = Inr (JStr ''R1'', JStr ''B1'', JStr ''F3'')"
    by (simp add: example_defs catalog_defs)
  have t: "py_truthy (JStr ''R1'')" "py_truthy (JStr ''B1'')" "py_truthy (JStr ''F3'')"
    by simp_all
  have s1: "ok_server (length (calls (start :: select_msg world)))
              (SaveChosen (post_data (JStr ''R1'', JStr ''B1'', JStr ''F3'') example_params))
            = JsonBody ok_body"
    by (simp add: ok_server_def)
  have s2: "refusing_server (length (calls (start :: select_msg world)))
              (SaveChosen (post_data (JStr ''R1'', JStr ''B1'', JStr ''F3'') example_params))
            = JsonBody refusing_body"
    by (simp add: refusing_server_def)
  have d: "is_dict ok_body" "is_dict refusing_body"
    by (simp_all add: ok_body_def refusing_body_def)
  from select_bed_posts_once[where srv = ok_server and w = start, OF h1 t s1 d(1)]
    select_bed_posts_once[where srv = refusing_server and w = start, OF h1 t s2 d(2)] h1
  show ?thesis
    by (simp add: start_def example_params_def ok_body_def refusing_body_def)
qed

text \<open>
  C6: when the two names resolve and the operator's answer is not \<open>y\<close>, \<^verbatim>\<open>select_bed\<close>
  makes no call and ends with the line of a cancelled operation (line 267); no error line
  is printed.
\<close>

theorem select_bed_cancelled:
  assumes "scan_floors target_room_name target_bed_name all_rooms_data no_targets = Inr t"
    and "all_targets t"
    and "confirm \<noteq> ''y''"
  shows "calls (select_bed srv all_rooms_data p target_room_name target_bed_name confirm w)
           = calls w \<and>
         printed (select_bed srv all_rooms_data p target_room_name target_bed_name confirm w)
           = printed w @ [MsgStep4, MsgConfirm, MsgConfirmRoom target_room_name (fst t),
                          MsgConfirmBed target_bed_name (target_bed_id t),
                          MsgPostData (post_data t p), MsgCancelled]"
  using assms by (simp add: run_defs)

theorem select_bed_cancelled_witness:
  "scan_floors ''Block36-314'' ''1'' [floor_3F] no_targets
     = Inr (JStr ''R1'', JStr ''B1'', JStr ''F3'') \<and>
   all_targets (JStr ''R1'', JStr ''B1'', JStr ''F3'') \<and> ''n'' \<noteq> ''y'' \<and>
   calls (select_bed ok_server [floor_3F] example_params ''Block36-314'' ''1'' ''n'' start) = [] \<and>
   last (printed (select_bed ok_server [floor_3F] example_params ''Block36-314'' ''1'' ''n'' start))
     = MsgCancelled"
proof -
  have h1: "scan_floors ''Block36-314'' ''1'' [floor_3F] no_targets
              = Inr (JStr ''R1'', JStr ''B1'', JStr ''F3'')"
    by (simp add: example_defs catalog_defs)
  have h2: "all_targets (JStr ''R1'', JStr ''B1'', JStr ''F3'')"
    by (simp add: all_targets_def)
  have h3: "''n'' \<noteq> ''y''" by simp
  from select_bed_cancelled[OF h1 h2 h3, of ok_server example_params start] h1 h2 h3
  show ?thesis by (simp add: start_def)
qed

text \<open>
  C10: \<^verbatim>\<open>select_bed\<close> makes no call, or exactly one: the POST whose \<open>roomId\<close>, \<open>bedId\<close>
  and \<open>floorId\<close> are all true (non-empty) and are the \<^verbatim>\<open>id\<close> and \<^verbatim>\<open>floorId\<close> of a room of
  the requested name and the \<^verbatim>\<open>id\<close> of a bed of that room with the requested name and the
  marker \<open>notCho\<close>. When the scan ends with an identifier that is missing or false, the
  not-found message is printed and nothing is posted.
\<close>

theorem posted_ids_truthy_and_copied:
  "(calls (select_bed srv all_rooms_data p target_room_name target_bed_name confirm w) = calls w \<or>
    (\<exists>fl room bed r.
       fl \<in> set all_rooms_data \<and> room \<in> set (rooms_of fl) \<and> bed \<in> set (beds_of room) \<and>
       get room ''name'' JNull = JStr target_room_name \<and>
       get bed ''name'' JNull = JStr target_bed_name \<and>
       get bed ''choose'' JNull = JStr ''notCho'' \<and>
       py_truthy (get room ''id'' JNull) \<and> py_truthy (get bed ''id'' JNull) \<and>
       py_truthy (get room ''floorId'' JNull) \<and>
       calls (select_bed srv all_rooms_data p target_room_name target_bed_name confirm w)
         = calls w @
           [(SaveChosen
               [(''roomId'', get room ''id'' JNull), (''bedId'', get bed ''id'' JNull),
                (''floorId'', get room ''floorId'' JNull),
                (''token'', JStr (token p)), (''buildingId'', JStr (buildingId p)),
                (''studentName'', JStr (studentName p)), (''deptName'', JStr (deptName p)),
                (''subId'', JStr (subId p))],
             r)])) \<and>
   (\<forall>room_id bed_id floor_id.
      scan_floors target_room_name target_bed_name all_rooms_data no_targets
        = Inr (room_id, bed_id, floor_id) \<and>
      \<not> (py_truthy room_id \<and> py_truthy bed_id \<and> py_truthy floor_id) \<longrightarrow>
      calls (select_bed srv all_rooms_data p target_room_name target_bed_name confirm w) = calls w \<and>
      printed (select_bed srv all_rooms_data p target_room_name target_bed_name confirm w)
        = printed w @ [MsgStep4, MsgNotFound])"
proof (intro conjI allI impI)
  show "calls (select_bed srv all_rooms_data p target_room_name target_bed_name confirm w) = calls w \<or>
    (\<exists>fl room bed r.
       fl \<in> set all_rooms_data \<and> room \<in> set (rooms_of fl) \<and> bed \<in> set (beds_of room) \<and>
       get room ''name'' JNull = JStr target_room_name \<and>
       get bed ''name'' JNull = JStr target_bed_name \<and>
       get bed ''choose'' JNull = JStr ''notCho'' \<and>
       py_truthy (get room ''id'' JNull) \<and> py_truthy (get bed ''id'' JNull) \<and>
       py_truthy (get room ''floorId'' JNull) \<and>
       calls (select_bed srv all_rooms_data p target_room_name target_bed_name confirm w)
         = calls w @
           [(SaveChosen
               [(''roomId'', get room ''id'' JNull), (''bedId'', get bed ''id'' JNull),
                (''floorId'', get room ''floorId'' JNull),
                (''token'', JStr (token p)), (''buildingId'', JStr (buildingId p)),
                (''studentName'', JStr (studentName p)), (''deptName'', JStr (deptName p)),
                (''subId'', JStr (subId p))],
             r)])"
  proof (cases "calls (select_bed srv all_rooms_data p target_room_name target_bed_name confirm w)
                  = calls w")
    case True
    then show ?thesis by (rule disjI1)
  next
    case False
    from select_bed_posted[OF False] show ?thesis
      unfolding post_data_fields by (intro disjI2) blast
  qed
next
  fix room_id bed_id floor_id
  assume "scan_floors target_room_name target_bed_name all_rooms_data no_targets
        = Inr (room_id, bed_id, floor_id) \<and>
      \<not> (py_truthy room_id \<and> py_truthy bed_id \<and> py_truthy floor_id)"
  then have "select_bed srv all_rooms_data p target_room_name target_bed_name confirm w
               = pr MsgNotFound (pr MsgStep4 w)"
    by (simp add: select_bed_def select_bed_try_def all_targets_def)
  then show "calls (select_bed srv all_rooms_data p target_room_name target_bed_name confirm w) = calls w"
    and "printed (select_bed srv all_rooms_data p target_room_name target_bed_name confirm w)
        = printed w @ [MsgStep4, MsgNotFound]"
    by (simp_all add: pr_def)
qed

theorem posted_ids_truthy_and_copied_witness:
  "scan_floors ''Block36-314'' ''1'' [floor_no_id] no_targets = Inr (JStr [], JStr ''B1'', JStr ''F3'') \<and>
   \<not> (py_truthy (JStr []) \<and> py_truthy (JStr ''B1'') \<and> py_truthy (JStr ''F3'')) \<and>
   calls (select_bed ok_server [floor_no_id] example_params ''Block36-314'' ''1'' ''y'' start) = [] \<and>
   printed (select_bed ok_server [floor_no_id] example_params ''Block36-314'' ''1'' ''y'' start)
     = [MsgStep4, MsgNotFound] \<and>
   calls (select_bed ok_server [floor_3F] example_params ''Block36-314'' ''1'' ''y'' start)
     = [(SaveChosen [(''roomId'', JStr ''R1''), (''bedId'', JStr ''B1''), (''floorId'', JStr ''F3''),
                     (''token'', JStr ''T''), (''buildingId'', JStr ''BLD''),
                     (''studentName'', JStr ''Li''), (''deptName'', JStr ''CS''),
                     (''subId'', JStr ''SUB'')],
         JsonBody ok_body)] \<and>
   (\<exists>fl room bed r.
       fl \<in> set [floor_3F] \<and> room \<in> set (rooms_of fl) \<and> bed \<in> set (beds_of room) \<and>
       get room ''name'' JNull = JStr ''Block36-314'' \<and> get bed ''name'' JNull = JStr ''1'' \<and>
       get bed ''choose'' JNull = JStr ''notCho'' \<and>
       py_truthy (get room ''id'' JNull) \<and> py_truthy (get bed ''id'' JNull) \<and>
       py_truthy (get room ''floorId'' JNull) \<and>
       calls (select_bed ok_server [floor_3F] example_params ''Block36-314'' ''1'' ''y'' start)
         = calls (start :: select_msg world) @
           [(SaveChosen
               [(''roomId'', get room ''id'' JNull), (''bedId'', get bed ''id'' JNull),
                (''floorId'', get room ''floorId'' JNull),
                (''token'', JStr (token example_params)),
                (''buildingId'', JStr (buildingId example_params)),
                (''studentName'', JStr (studentName example_params)),
                (''deptName'', JStr (deptName example_params)),
                (''subId'', JStr (subId example_params))],
             r)])"
proof -
  have h1: "scan_floors ''Block36-314'' ''1'' [floor_no_id] no_targets
              = Inr (JStr [], JStr ''B1'', JStr ''F3'')"
    by (simp add: example_defs catalog_defs)
  have h2: "\<not> (py_truthy (JStr []) \<and> py_truthy (JStr ''B1'') \<and> py_truthy (JStr ''F3''))"
    by simp
  note t1 = posted_ids_truthy_and_copied[of ok_server "[floor_no_id]" example_params
         "''Block36-314''" "''1''" "''y''" start, THEN conjunct2, rule_format, OF conjI[OF h1 h2]]
  have c: "calls (select_bed ok_server [floor_3F] example_params ''Block36-314'' ''1'' ''y'' start)
     = [(SaveChosen [(''roomId'', JStr ''R1''), (''bedId'', JStr ''B1''), (''floorId'', JStr ''F3''),
                     (''token'', JStr ''T''), (''buildingId'', JStr ''BLD''),
                     (''studentName'', JStr ''Li''), (''deptName'', JStr ''CS''),
                     (''subId'', JStr ''SUB'')],
         JsonBody ok_body)]"
    by (simp add: example_defs catalog_defs run_defs)
  then have ne: "calls (select_bed ok_server [floor_3F] example_params ''Block36-314'' ''1'' ''y'' start)
                   \<noteq> calls (start :: select_msg world)"
    by (simp add: start_def)
  note t2 = posted_ids_truthy_and_copied[of ok_server "[floor_3F]" example_params
         "''Block36-314''" "''1''" "''y''" start, THEN conjunct1]
  have e: "\<exists>fl room bed r.
       fl \<in> set [floor_3F] \<and> room \<in> set (rooms_of fl) \<and> bed \<in> set (beds_of room) \<and>
       get room ''name'' JNull = JStr ''Block36-314'' \<and> get bed ''name'' JNull = JStr ''1'' \<and>
       get bed ''choose'' JNull = JStr ''notCho'' \<and>
       py_truthy (get room ''id'' JNull) \<and> py_truthy (get bed ''id'' JNull) \<and>
       py_truthy (get room ''floorId'' JNull) \<and>
       calls (select_bed ok_server [floor_3F] example_params ''Block36-314'' ''1'' ''y'' start)
         = calls (start :: select_msg world) @
           [(SaveChosen
               [(''roomId'', get room ''id'' JNull), (''bedId'', get bed ''id'' JNull),
                (''floorId'', get room ''floorId'' JNull),
                (''token'', JStr (token example_params)),
                (''buildingId'', JStr (buildingId example_params)),
                (''studentName'', JStr (studentName example_params)),
                (''deptName'', JStr (deptName example_params)),
                (''subId'', JStr (subId example_params))],
             r)]"
    using t2
  proof (elim disjE)
    assume "calls (select_bed ok_server [floor_3F] example_params ''Block36-314'' ''1'' ''y'' start)
              = calls (start :: select_msg world)"
    with ne show ?thesis by contradiction
  next
    assume "\<exists>fl room bed r.
       fl \<in> set [floor_3F] \<and> room \<in> set (rooms_of fl) \<and> bed \<in> set (beds_of room) \<and>
       get room ''name'' JNull = JStr ''Block36-314'' \<and> get bed ''name'' JNull = JStr ''1'' \<and>
       get bed ''choose'' JNull = JStr ''notCho'' \<and>
       py_truthy (get room ''id'' JNull) \<and> py_truthy (get bed ''id'' JNull) \<and>
       py_truthy (get room ''floorId'' JNull) \<and>
       calls (select_bed ok_server [floor_3F] example_params ''Block36-314'' ''1'' ''y'' start)
         = calls (start :: select_msg world) @
           [(SaveChosen
               [(''roomId'', get room ''id'' JNull), (''bedId'', get bed ''id'' JNull),
                (''floorId'', get room ''floorId'' JNull),
                (''token'', JStr (token example_params)),
                (''buildingId'', JStr (buildingId example_params)),
                (''studentName'', JStr (studentName example_params)),
                (''deptName'', JStr (deptName example_params)),
                (''subId'', JStr (subId example_params))],
             r)]"
    then show ?thesis .
  qed
  from t1 have n: "calls (select_bed ok_server [floor_no_id] example_params ''Block36-314'' ''1'' ''y'' start) = []"
    "printed (select_bed ok_server [floor_no_id] example_params ''Block36-314'' ''1'' ''y'' start)
     = [MsgStep4, MsgNotFound]"
    by (simp_all add: start_def)
  from h1 h2 n c e show ?thesis by (intro conjI)
qed

section \<open>get_and_display_rooms: facts used in the proofs\<close>



lemma available_beds_filter:
  "list_all is_dict beds \<Longrightarrow>
   available_beds_in_room beds =
     Inr (map (\<lambda>bed. (get bed ''name'' JNull, get bed ''bedPrice'' JNull)) (filter not_chosen beds))"
  by (induction beds) auto


lemma available_beds_Inr: "available_beds_in_room beds = Inr a \<Longrightarrow> list_all is_dict beds"
  by (induction beds arbitrary: a) (auto split: if_splits sum.splits)


lemma show_room_Inr: "show_room fname room = Inr ls \<Longrightarrow> wf_room room"
  by (auto simp: show_room_def wf_room_def iterable_def beds_of_def
           split: if_splits sum.splits dest: available_beds_Inr)

lemma show_room_wf:
  "wf_room room \<Longrightarrow>
   show_room fname room =
     Inr (if filter not_chosen (beds_of room) = [] then []
          else MsgRoom fname (get room ''name'' (JStr unknown_room)) #
               map (\<lambda>bed. MsgBed (get bed ''name'' JNull) (get bed ''bedPrice'' JNull))
                   (filter not_chosen (beds_of room)))"
  using wf_room_beds[of room]
  by (simp add: show_room_def available_beds_filter comp_def)



lemma show_rooms_none_free:
  "list_all wf_room rooms \<Longrightarrow> \<not> list_ex (\<lambda>room. list_ex not_chosen (beds_of room)) rooms \<Longrightarrow>
   show_rooms fname rooms found w = (Inr found, w)"
proof (induction rooms arbitrary: found w)
  case Nil then show ?case by simp
next
  case (Cons room rooms)
  then have "filter not_chosen (beds_of room) = []"
    by (auto simp: filter_empty_conv list_ex_iff)
  with Cons show ?case by (simp add: show_room_wf)
qed

lemma show_floors_none_free:
  "list_all wf_floor cat \<Longrightarrow> \<not> any_available cat \<Longrightarrow>
   show_floors cat found w = (Inr found, w)"
proof (induction cat arbitrary: found w)
  case Nil then show ?case by simp
next
  case (Cons fl cat)
  then have "show_rooms (get fl ''no'' (JStr unknown_floor)) (rooms_of fl) found w = (Inr found, w)"
    using wf_floor_rooms[of fl] by (intro show_rooms_none_free) (auto simp: any_available_def)
  with Cons show ?case
    using wf_floor_rooms[of fl] by (simp add: any_available_def)
qed






lemma fits_Inl: "fits new (Inl e :: exc + 'a) = fits new (Inl e :: exc + 'b)"
  by (simp add: fits_def)



lemmas example_defs2 = example_defs bed_B3_def bed_B2_named_2_def room_mixed_def
  listing_body_def no_floor_body_def full_floor_body_def


lemmas rooms_run_defs = get_and_display_rooms_def get_and_display_rooms_try_def show_room_def
  post_def pr_def start_def Let_def

lemma show_rooms_Inr:
  "show_rooms fname rooms found w = (Inr f', w') \<Longrightarrow>
   list_all wf_room rooms \<and>
   f' = (found \<or> list_ex (\<lambda>room. list_ex not_chosen (beds_of room)) rooms)"
proof (induction rooms arbitrary: found w)
  case Nil then show ?case by auto
next
  case (Cons room rooms)
  from Cons.prems obtain ls where ls: "show_room fname room = Inr ls"
    and rest: "show_rooms fname rooms (found \<or> ls \<noteq> []) (w\<lparr>printed := printed w @ ls\<rparr>) = (Inr f', w')"
    by (auto split: sum.splits)
  from show_room_Inr[OF ls] have wf: "wf_room room" .
  from ls show_room_wf[OF wf, of fname]
  have "(ls \<noteq> []) = list_ex not_chosen (beds_of room)"
    by (auto simp: list_ex_iff filter_empty_conv split: if_splits)
  with Cons.IH[OF rest] wf show ?case by auto
qed

lemma show_floors_Inr:
  "show_floors cat found w = (Inr f', w') \<Longrightarrow>
   list_all wf_floor cat \<and> f' = (found \<or> any_available cat)"
proof (induction cat arbitrary: found w)
  case Nil then show ?case by (auto simp: any_available_def)
next
  case (Cons fl cat)
  from Cons.prems obtain rooms f1 w1 where d: "is_dict fl"
    and it: "iterate (get fl ''room'' (JArr [])) = Inr rooms"
    and sr: "show_rooms (get fl ''no'' (JStr unknown_floor)) rooms found w = (Inr f1, w1)"
    and rest: "show_floors cat f1 w1 = (Inr f', w')"
    by (auto split: if_splits sum.splits prod.splits)
  have ro: "rooms_of fl = rooms" using it by (simp add: rooms_of_def)
  from show_rooms_Inr[OF sr] d it ro have "wf_floor fl"
    and "f1 = (found \<or> list_ex (\<lambda>room. list_ex not_chosen (beds_of room)) (rooms_of fl))"
    by (auto simp: wf_floor_def iterable_def)
  with Cons.IH[OF rest] show ?case by (auto simp: any_available_def)
qed

lemma returned_catalog_wf:
  assumes "get_and_display_rooms srv b s w = (Inr (Some cat), w')"
  shows "cat \<noteq> [] \<and> list_all wf_floor cat \<and> any_available cat"
proof -
  obtain r0 w0 where t: "get_and_display_rooms_try srv b s w = (r0, w0)"
    by (cases "get_and_display_rooms_try srv b s w")
  with assms have r0: "r0 = Inr (Some cat)"
    by (auto simp: get_and_display_rooms_def split: sum.splits exc.splits)
  from t[unfolded get_and_display_rooms_try_def r0] obtain w2 w3 where
    "cat \<noteq> []" "show_floors cat False (pr MsgListHeader w2) = (Inr True, w3)"
    by (auto simp: Let_def split: prod.splits response.splits if_splits sum.splits)
  with show_floors_Inr show ?thesis by blast
qed









text \<open>
  A floor request answered with a JSON object is read with defaults: when the object has
  no \<^verbatim>\<open>data\<close> or no \<^verbatim>\<open>floor\<close>, or an empty one, nothing is added and the loop goes on
  to the next floor (lines 176 and 177).
\<close>

lemma floor_answer_without_rooms_adds_nothing:
  assumes "is_dict floor_sel"
    and "srv (length (calls w)) (FloorShow building_id sub_id (Some (get floor_sel ''floorId'' JNull)))
           = JsonBody body"
    and "is_dict body"
    and "is_dict (get body ''data'' (JObj []))"
    and "\<not> py_truthy (get (get body ''data'' (JObj [])) ''floor'' (JArr []))"
  shows "fetch_floors srv building_id sub_id (floor_sel # sels) all_rooms_data w
           = fetch_floors srv building_id sub_id sels all_rooms_data
               (snd (post srv (FloorShow building_id sub_id (Some (get floor_sel ''floorId'' JNull)))
                      (pr (MsgFetchingFloor (get floor_sel ''no'' (JStr unknown_floor))) w)))"
  using assms by (simp add: post_def pr_def Let_def)

section \<open>get_and_display_rooms: the claims\<close>

text \<open>
  C1, as stated, fails. With every bed taken the function prints the line of line 204 and
  returns \<^verbatim>\<open>None\<close>; with an empty floor list it prints the line of line 160 and returns
  \<^verbatim>\<open>None\<close> as well. The two values returned to the caller are equal; only the lines
  printed differ.
\<close>

theorem fully_booked_same_value_as_error:
  "fst (get_and_display_rooms full_server ''BLD'' ''SUB'' start) = Inr None \<and>
   printed (snd (get_and_display_rooms full_server ''BLD'' ''SUB'' start))
     = [MsgStep3, MsgFetchingFloor (JStr ''3F''), MsgListHeader, MsgAllFull] \<and>
   fst (get_and_display_rooms no_floor_server ''BLD'' ''SUB'' start) = Inr None \<and>
   printed (snd (get_and_display_rooms no_floor_server ''BLD'' ''SUB'' start))
     = [MsgStep3, MsgNoFloors] \<and>
   fst (get_and_display_rooms full_server ''BLD'' ''SUB'' start)
     = fst (get_and_display_rooms no_floor_server ''BLD'' ''SUB'' start)"
  by (simp add: rooms_run_defs example_defs2 not_chosen_def)

text \<open>
  C1, amended: when the floor listing succeeds, floors exist, every floor request is
  answered, and no bed of the floor records gathered has the marker \<open>notCho\<close>,
  \<^verbatim>\<open>get_and_display_rooms\<close> prints the header and the line that every room is full and
  returns \<^verbatim>\<open>None\<close>, the value it also returns in its error cases.
\<close>

theorem fully_booked_returns_none:
  assumes "srv (length (calls w)) (FloorShow building_id sub_id None) = JsonBody data"
    and "is_dict data"
    and "get data ''status'' JNull = JStr ''success''"
    and "is_dict (get data ''data'' (JObj []))"
    and "py_truthy (get (get data ''data'' (JObj [])) ''floorSelect'' (JArr []))"
    and "iterate (get (get data ''data'' (JObj [])) ''floorSelect'' (JArr [])) = Inr sels"
    and "fetch_floors srv building_id sub_id sels []
           (snd (post srv (FloorShow building_id sub_id None) (pr MsgStep3 w)))
           = (Inr all_rooms_data, w2)"
    and "all_rooms_data \<noteq> []"
    and "list_all wf_floor all_rooms_data"
    and "\<not> any_available all_rooms_data"
  shows "get_and_display_rooms srv building_id sub_id w
           = (Inr None, pr MsgAllFull (pr MsgListHeader w2))"
proof -
  have d: "show_floors all_rooms_data False (pr MsgListHeader w2) = (Inr False, pr MsgListHeader w2)"
    using assms(9,10) by (rule show_floors_none_free)
  define w1 where "w1 = (pr MsgStep3 w)\<lparr>calls := calls w @ [(FloorShow building_id sub_id None, JsonBody data)]\<rparr>"
  have p: "post srv (FloorShow building_id sub_id None) (pr MsgStep3 w) = (JsonBody data, w1)"
    using assms(1) by (simp add: post_def pr_def Let_def w1_def)
  have f: "fetch_floors srv building_id sub_id sels [] w1 = (Inr all_rooms_data, w2)"
    using assms(7) by (simp add: p)
  show ?thesis
    unfolding get_and_display_rooms_def get_and_display_rooms_try_def p
    using assms(2-6,8) f d by (simp add: Let_def)
qed

theorem fully_booked_returns_none_witness:
  "get_and_display_rooms full_server ''BLD'' ''SUB'' start
     = (Inr None,
        \<lparr>calls = [(FloorShow ''BLD'' ''SUB'' None, JsonBody listing_body),
                  (FloorShow ''BLD'' ''SUB'' (Some (JStr ''F3'')), JsonBody full_floor_body)],
         printed = [MsgStep3, MsgFetchingFloor (JStr ''3F''), MsgListHeader, MsgAllFull]\<rparr>)"
proof -
  let ?sel = "JObj [(''floorId'', JStr ''F3''), (''no'', JStr ''3F'')]"
  let ?w2 = "\<lparr>calls = [(FloorShow ''BLD'' ''SUB'' None, JsonBody listing_body),
                  (FloorShow ''BLD'' ''SUB'' (Some (JStr ''F3'')), JsonBody full_floor_body)],
         printed = [MsgStep3, MsgFetchingFloor (JStr ''3F'')]\<rparr>"
  have h1: "full_server (length (calls (start :: rooms_msg world))) (FloorShow ''BLD'' ''SUB'' None)
              = JsonBody listing_body" by simp
  have h2: "is_dict listing_body" by (simp add: listing_body_def)
  have h3: "get listing_body ''status'' JNull = JStr ''success''" by (simp add: listing_body_def)
  have h4: "is_dict (get listing_body ''data'' (JObj []))" by (simp add: listing_body_def)
  have h5: "py_truthy (get (get listing_body ''data'' (JObj [])) ''floorSelect'' (JArr []))"
    by (simp add: listing_body_def)
  have h6: "iterate (get (get listing_body ''data'' (JObj [])) ''floorSelect'' (JArr [])) = Inr [?sel]"
    by (simp add: listing_body_def)
  have h7: "fetch_floors full_server ''BLD'' ''SUB'' [?sel] []
           (snd (post full_server (FloorShow ''BLD'' ''SUB'' None) (pr MsgStep3 start)))
           = (Inr [floor_3F_taken], ?w2)"
    by (simp add: post_def pr_def start_def Let_def full_floor_body_def)
  have h8: "[floor_3F_taken] \<noteq> []" by simp
  have h9: "list_all wf_floor [floor_3F_taken]"
    by (simp add: example_defs catalog_defs)
  have h10: "\<not> any_available [floor_3F_taken]"
    by (simp add: example_defs catalog_defs)
  from fully_booked_returns_none[where srv = full_server and w = start,
         OF h1 h2 h3 h4 h5 h6 h7 h8 h9 h10]
  show ?thesis by (simp add: pr_def)
qed







section \<open>The two pages: facts used in the proofs\<close>

text \<open>
  The search of the model finds a statement exactly when the text holds one
  (\<open>search_complete\<close>), and what it returns is the value of a statement of the text
  (\<open>search_sound\<close>).
\<close>

lemma ws_prefix_free: "\<forall>a\<in>set whitespace. \<forall>b\<in>set whitespace. prefix a b \<longrightarrow> a = b"
  by (simp add: whitespace_def)

lemma ws_nonempty: "w \<in> set whitespace \<Longrightarrow> w \<noteq> []"
  by (auto simp: whitespace_def)

lemma find_ws:
  assumes "w \<in> set whitespace"
  shows "find (\<lambda>x. prefix x (w @ s)) whitespace = Some w"
proof (cases "find (\<lambda>x. prefix x (w @ s)) whitespace")
  case None
  with assms show ?thesis by (auto simp: find_None_iff)
next
  case (Some x)
  then have x: "x \<in> set whitespace" "prefix x (w @ s)"
    by (auto simp: find_Some_iff)
  then have "prefix x w \<or> prefix w x"
    by (meson prefix_append prefix_order.order_refl prefix_same_cases prefixI)
  with ws_prefix_free x(1) assms have "x = w" by blast
  with Some show ?thesis by simp
qed

lemma lstrip_ws: "w \<in> set whitespace \<Longrightarrow> lstrip (w @ s) = lstrip s"
proof -
  assume mem: "w \<in> set whitespace"
  then have "w \<noteq> []" by (rule ws_nonempty)
  then obtain c w' where c: "w = c # w'" by (cases w) auto
  from find_ws[OF mem, of s] c show ?thesis by (simp add: lstrip_def)
qed

lemma lstrip_run: "ws_run a \<Longrightarrow> lstrip (a @ s) = lstrip s"
  by (induction rule: ws_run.induct) (simp_all add: lstrip_ws)

lemma find_equals: "find (\<lambda>w. prefix w (CHR ''='' # s)) whitespace = None"
  by (simp add: whitespace_def)

lemma find_quote: "find (\<lambda>w. prefix w (CHR 0x27 # s)) whitespace = None"
  by (simp add: whitespace_def)

lemma lstrip_equals: "lstrip (CHR ''='' # s) = CHR ''='' # s"
  by (simp add: lstrip_def find_equals)

lemma lstrip_quote: "lstrip (quote # s) = quote # s"
  by (simp add: lstrip_def quote_def find_quote)

lemma lstrip_decomp: "\<exists>a. ws_run a \<and> s = a @ lstrip s"
proof (induction s rule: length_induct)
  case (1 s)
  show ?case
  proof (cases s)
    case Nil
    then show ?thesis by (auto simp: lstrip_def intro: ws_nil)
  next
    case (Cons c s')
    show ?thesis
    proof (cases "find (\<lambda>w. prefix w (c # s')) whitespace")
      case None
      with Cons show ?thesis
        by (intro exI[of _ "[]"]) (simp add: lstrip_def ws_nil)
    next
      case (Some w)
      then have w: "w \<in> set whitespace" "prefix w (c # s')"
        by (auto simp: find_Some_iff)
      then obtain r where r: "c # s' = w @ r" by (auto simp: prefix_def)
      from w ws_nonempty have "w \<noteq> []" by blast
      then obtain c' w' where cw: "w = c' # w'" by (cases w) auto
      with r have d: "drop (length w - 1) s' = r" "length r < length s"
        using Cons by auto
      from 1 d(2) obtain a where a: "ws_run a" "r = a @ lstrip r" by blast
      have "lstrip s = lstrip r"
        using Cons Some d(1) by (simp add: lstrip_def)
      with a r Cons show ?thesis
        by (intro exI[of _ "w @ a"]) (auto intro: ws_more[OF w(1)])
    qed
  qed
qed

lemma match_complete:
  assumes "ws_run a" "ws_run b" "v \<noteq> []" "quote \<notin> set v"
  shows "match_assignment var (var @ a @ ''='' @ b @ [quote] @ v @ [quote, CHR '';''] @ trail)
           = Some v"
proof -
  have 1: "lstrip (a @ ''='' @ b @ [quote] @ v @ [quote, CHR '';''] @ trail)
             = CHR ''='' # b @ [quote] @ v @ [quote, CHR '';''] @ trail"
    using lstrip_run[OF assms(1)] by (simp add: lstrip_equals)
  have 2: "lstrip (b @ [quote] @ v @ [quote, CHR '';''] @ trail)
             = quote # v @ [quote, CHR '';''] @ trail"
    using lstrip_run[OF assms(2)] by (simp add: lstrip_quote)
  have nq: "\<And>x. x \<in> set v \<Longrightarrow> x \<noteq> quote" using assms(4) by auto
  have 3: "takeWhile (\<lambda>x. x \<noteq> quote) (v @ [quote, CHR '';''] @ trail) = v"
    using nq by (simp add: takeWhile_append2)
  have 4: "dropWhile (\<lambda>x. x \<noteq> quote) (v @ [quote, CHR '';''] @ trail) = [quote, CHR '';''] @ trail"
    using nq by (simp add: dropWhile_append2)
  show ?thesis
    unfolding match_assignment_def using 1 2 3 4 assms(3) by (simp add: Let_def)
qed

lemma search_complete: "assigns var text v \<Longrightarrow> \<exists>v'. re_search var text = Some v'"
proof -
  assume "assigns var text v"
  then obtain pre a b trail where
    t: "text = pre @ var @ a @ ''='' @ b @ [quote] @ v @ [quote, CHR '';''] @ trail"
    and h: "ws_run a" "ws_run b" "v \<noteq> []" "quote \<notin> set v"
    by (auto simp: assigns_def)
  define stmt where "stmt = var @ a @ ''='' @ b @ [quote] @ v @ [quote, CHR '';''] @ trail"
  have m: "match_assignment var stmt = Some v"
    unfolding stmt_def using h by (rule match_complete)
  have ne: "stmt \<noteq> []" by (simp add: stmt_def)
  have "\<exists>v'. re_search var (pre @ stmt) = Some v'"
  proof (induction pre)
    case Nil
    from ne obtain c s where "stmt = c # s" by (cases stmt) auto
    with m show ?case by simp
  next
    case (Cons c pre)
    then show ?case by (cases "match_assignment var (c # pre @ stmt)") auto
  qed
  with t show ?thesis by (simp add: stmt_def)
qed

lemma match_sound:
  assumes "match_assignment var s = Some v"
  shows "\<exists>a b trail. s = var @ a @ ''='' @ b @ [quote] @ v @ [quote, CHR '';''] @ trail \<and>
           ws_run a \<and> ws_run b \<and> v \<noteq> [] \<and> quote \<notin> set v"
proof -
  from assms have p: "prefix var s" by (auto simp: match_assignment_def split: if_splits)
  then obtain r where r: "s = var @ r" by (auto simp: prefix_def)
  then have d: "drop (length var) s = r" by simp
  from assms p d obtain s1 where s1: "lstrip r = CHR ''='' # s1"
    by (auto simp: match_assignment_def split: if_splits list.splits)
  from assms p d s1 obtain s2 where s2: "lstrip s1 = quote # s2"
    by (auto simp: match_assignment_def split: if_splits list.splits)
  from assms p d s1 s2 have v: "v = takeWhile (\<lambda>x. x \<noteq> quote) s2" "v \<noteq> []"
    and rest: "prefix [quote, CHR '';''] (dropWhile (\<lambda>x. x \<noteq> quote) s2)"
    by (auto simp: match_assignment_def Let_def split: if_splits)
  from rest obtain trail where trail: "dropWhile (\<lambda>x. x \<noteq> quote) s2 = [quote, CHR '';''] @ trail"
    by (auto simp: prefix_def)
  have s2': "s2 = v @ [quote, CHR '';''] @ trail"
    using takeWhile_dropWhile_id[of "\<lambda>x. x \<noteq> quote" s2] v(1) trail by simp
  have q: "quote \<notin> set v" using v(1) by (auto dest: set_takeWhileD)
  from lstrip_decomp[of r] obtain a where a: "ws_run a" "r = a @ lstrip r" by blast
  from lstrip_decomp[of s1] obtain b where b: "ws_run b" "s1 = b @ lstrip s1" by blast
  have "s = var @ a @ ''='' @ b @ [quote] @ v @ [quote, CHR '';''] @ trail"
    using r a(2) s1 b(2) s2 s2' by simp
  with a(1) b(1) v(2) q show ?thesis by blast
qed

lemma search_sound: "re_search var doc = Some v \<Longrightarrow> assigns var doc v"
proof (induction doc)
  case Nil
  from match_sound[OF Nil[simplified]] show ?case
    by (auto simp: assigns_def)
next
  case (Cons c doc)
  show ?case
  proof (cases "match_assignment var (c # doc)")
    case None
    with Cons have "assigns var doc v" by simp
    then obtain pre a b trail where
      "doc = pre @ var @ a @ ''='' @ b @ [quote] @ v @ [quote, CHR '';''] @ trail"
      "ws_run a" "ws_run b" "v \<noteq> []" "quote \<notin> set v"
      by (auto simp: assigns_def)
    then show ?thesis
      unfolding assigns_def by (intro exI[of _ "c # pre"] exI[of _ a] exI[of _ b] exI[of _ trail]) simp
  next
    case (Some v')
    with Cons.prems have "v' = v" by simp
    with Some match_sound[of var "c # doc" v] obtain a b trail where
      "c # doc = var @ a @ ''='' @ b @ [quote] @ v @ [quote, CHR '';''] @ trail"
      "ws_run a" "ws_run b" "v \<noteq> []" "quote \<notin> set v"
      by blast
    then show ?thesis
      unfolding assigns_def by (intro exI[of _ "[]"] exI[of _ a] exI[of _ b] exI[of _ trail]) simp
  qed
qed

lemma search_None: "(\<forall>v. \<not> assigns var doc v) \<Longrightarrow> re_search var doc = None"
  using search_sound[of var doc] by (cases "re_search var doc") auto

lemma gsp_Some:
  "find_token doc = Some attrs \<Longrightarrow> map_of attrs ''value'' = Some tok \<Longrightarrow>
   re_search ''subId'' doc = Some v1 \<Longrightarrow> re_search ''buildingId'' doc = Some v2 \<Longrightarrow>
   fst (get_selection_params find_token (Page doc)) = Some (tok, v1, v2)"
  by (simp add: get_selection_params_def)

lemma gsp_None:
  "re_search ''subId'' doc = None \<or> re_search ''buildingId'' doc = None \<Longrightarrow>
   fst (get_selection_params find_token (Page doc)) = None"
  by (auto simp: get_selection_params_def split: option.splits)

lemma remove_all_label_prefix:
  "remove_all college_label (college_label @ s) = remove_all college_label s"
  by (simp add: college_label_def)

section \<open>The two pages: the claims\<close>

text \<open>
  C8: when the page holds the token input with a \<^verbatim>\<open>value\<close> attribute and both statements
  \<^verbatim>\<open>subId = '...';\<close> and \<^verbatim>\<open>buildingId = '...';\<close>, \<^verbatim>\<open>get_selection_params\<close> returns the
  attribute's value as it is, and for each of the two names the value of a statement of
  the page, as it is written there (of the only one, when the page holds one). When one
  of the two statements is absent, it returns \<^verbatim>\<open>(None, None, None)\<close>, whatever
  BeautifulSoup finds for the token.
\<close>

theorem selection_params_verbatim:
  "(find_token doc = Some attrs \<and> map_of attrs ''value'' = Some tok \<and>
    assigns ''subId'' doc s0 \<and> assigns ''buildingId'' doc b0 \<longrightarrow>
      (\<exists>sub_id building_id.
         fst (get_selection_params find_token (Page doc)) = Some (tok, sub_id, building_id) \<and>
         assigns ''subId'' doc sub_id \<and> assigns ''buildingId'' doc building_id)) \<and>
   ((\<forall>v. \<not> assigns ''subId'' doc v) \<or> (\<forall>v. \<not> assigns ''buildingId'' doc v) \<longrightarrow>
      fst (get_selection_params find_token (Page doc)) = None)"
proof (intro conjI impI)
  assume h: "find_token doc = Some attrs \<and> map_of attrs ''value'' = Some tok \<and>
    assigns ''subId'' doc s0 \<and> assigns ''buildingId'' doc b0"
  then have f: "find_token doc = Some attrs" and m: "map_of attrs ''value'' = Some tok"
    and a1: "assigns ''subId'' doc s0" and a2: "assigns ''buildingId'' doc b0"
    by simp_all
  from search_complete[OF a1] obtain v1 where v1: "re_search ''subId'' doc = Some v1" ..
  from search_complete[OF a2] obtain v2 where v2: "re_search ''buildingId'' doc = Some v2" ..
  have "fst (get_selection_params find_token (Page doc)) = Some (tok, v1, v2)"
    using f m v1 v2 by (rule gsp_Some)
  moreover have "assigns ''subId'' doc v1" using v1 by (rule search_sound)
  moreover have "assigns ''buildingId'' doc v2" using v2 by (rule search_sound)
  ultimately show "\<exists>sub_id building_id.
         fst (get_selection_params find_token (Page doc)) = Some (tok, sub_id, building_id) \<and>
         assigns ''subId'' doc sub_id \<and> assigns ''buildingId'' doc building_id"
    by (intro exI conjI)
next
  assume "(\<forall>v. \<not> assigns ''subId'' doc v) \<or> (\<forall>v. \<not> assigns ''buildingId'' doc v)"
  then have "re_search ''subId'' doc = None \<or> re_search ''buildingId'' doc = None"
  proof
    assume "\<forall>v. \<not> assigns ''subId'' doc v"
    then show ?thesis by (simp add: search_None)
  next
    assume "\<forall>v. \<not> assigns ''buildingId'' doc v"
    then show ?thesis by (simp add: search_None)
  qed
  then show "fst (get_selection_params find_token (Page doc)) = None"
    by (rule gsp_None)
qed

theorem selection_params_verbatim_witness:
  "token_input entry_script = Some [(''id'', ''token''), (''name'', ''token''), (''value'', ''T0'')] \<and>
   assigns ''subId'' entry_script ''S7'' \<and> assigns ''buildingId'' entry_script ''B 9'' \<and>
   fst (get_selection_params token_input (Page entry_script)) = Some (''T0'', ''S7'', ''B 9'') \<and>
   (\<forall>v. \<not> assigns ''buildingId'' entry_script_no_building v) \<and>
   fst (get_selection_params token_input (Page entry_script_no_building)) = None \<and>
   fst (get_selection_params no_token_input (Page entry_script_no_building)) = None"
proof -
  have r1: "re_search ''subId'' entry_script = Some ''S7''"
    by code_simp
  have r2: "re_search ''buildingId'' entry_script = Some ''B 9''"
    by code_simp
  have r3: "re_search ''buildingId'' entry_script_no_building = None"
    by code_simp
  have h1: "token_input entry_script
              = Some [(''id'', ''token''), (''name'', ''token''), (''value'', ''T0'')]"
    by (simp add: token_input_def)
  have h2: "map_of [(''id'', ''token''), (''name'', ''token''), (''value'', ''T0'')] ''value''
              = Some ''T0''"
    by simp
  have h3: "assigns ''subId'' entry_script ''S7''" using r1 by (rule search_sound)
  have h4: "assigns ''buildingId'' entry_script ''B 9''" using r2 by (rule search_sound)
  have h5: "\<forall>v. \<not> assigns ''buildingId'' entry_script_no_building v"
  proof (intro allI notI)
    fix v assume "assigns ''buildingId'' entry_script_no_building v"
    from search_complete[OF this] r3 show False by simp
  qed
  note t1 = selection_params_verbatim[of token_input entry_script
         "[(''id'', ''token''), (''name'', ''token''), (''value'', ''T0'')]" "''T0''" "''S7''" "''B 9''",
         THEN conjunct1, THEN mp, OF conjI[OF h1 conjI[OF h2 conjI[OF h3 h4]]]]
  then obtain x y where
    e: "fst (get_selection_params token_input (Page entry_script)) = Some (''T0'', x, y)"
    by (elim exE conjE)
  have "fst (get_selection_params token_input (Page entry_script)) = Some (''T0'', ''S7'', ''B 9'')"
    using h1 h2 r1 r2 by (rule gsp_Some)
  with e have a: "fst (get_selection_params token_input (Page entry_script)) = Some (''T0'', ''S7'', ''B 9'')"
    by simp
  note b = selection_params_verbatim[of token_input entry_script_no_building,
         THEN conjunct2, THEN mp, OF disjI2[OF h5]]
  note c = selection_params_verbatim[of no_token_input entry_script_no_building,
         THEN conjunct2, THEN mp, OF disjI2[OF h5]]
  from h1 h3 h4 a h5 b c show ?thesis by (intro conjI)
qed

text \<open>
  C9, as stated, fails: the college is not the second field with the label stripped as a
  prefix. Line 76 removes the label wherever it occurs (\<^verbatim>\<open>replace\<close>) and trims
  whitespace; a second field that holds the label twice loses both.
\<close>

theorem label_removed_everywhere:
  "fst (get_personal_info profile_fields (Page [])) = Some (''Li'', ''LawB'') \<and>
   strip_label_prefix (college_label @ ''Law'' @ college_label @ ''B'')
     = ''Law'' @ college_label @ ''B'' \<and>
   ''LawB'' \<noteq> ''Law'' @ college_label @ ''B''"
proof -
  have a: "fst (get_personal_info profile_fields (Page [])) = Some (''Li'', ''LawB'')"
    by code_simp
  have b: "strip_label_prefix (college_label @ ''Law'' @ college_label @ ''B'')
             = ''Law'' @ college_label @ ''B''"
    by (simp add: strip_label_prefix_def)
  have c: "''LawB'' \<noteq> ''Law'' @ college_label @ ''B''"
    by (simp add: college_label_def)
  from a b c show ?thesis by (intro conjI)
qed

text \<open>
  C9, amended: when the page holds the container with at least two fields,
  \<^verbatim>\<open>get_personal_info\<close> returns the first field's text with surrounding whitespace
  removed, and the second field's text with every occurrence of the label removed and
  then surrounding whitespace removed. When the container is missing it prints the line
  of line 71 and returns \<^verbatim>\<open>(None, None)\<close>.
\<close>

theorem personal_info_fields:
  "(find_personal doc = Some (p0 # p1 # others) \<longrightarrow>
      fst (get_personal_info find_personal (Page doc))
        = Some (py_strip p0, py_strip (remove_all college_label p1))) \<and>
   (find_personal doc = None \<longrightarrow>
      get_personal_info find_personal (Page doc) = (None, [MsgStep1, MsgNoPersonalInfo]))"
  by (simp add: get_personal_info_def Let_def)

theorem personal_info_fields_witness:
  "profile_plain [] = Some ('' Li '' # (college_label @ ''Law '') # []) \<and>
   fst (get_personal_info profile_plain (Page [])) = Some (''Li'', ''Law'') \<and>
   no_profile [] = None \<and>
   get_personal_info no_profile (Page []) = (None, [MsgStep1, MsgNoPersonalInfo])"
proof -
  have h1: "profile_plain [] = Some ('' Li '' # (college_label @ ''Law '') # [])"
    by (simp add: profile_plain_def)
  have h2: "no_profile [] = None" by (simp add: no_profile_def)
  have s1: "py_strip '' Li '' = ''Li''" by code_simp
  have s2: "py_strip (remove_all college_label (college_label @ ''Law '')) = ''Law''"
    by code_simp
  note a = personal_info_fields[of profile_plain "[]" "'' Li ''" "college_label @ ''Law ''" "[]",
             THEN conjunct1, THEN mp, OF h1]
  note b = personal_info_fields[of no_profile "[]", THEN conjunct2, THEN mp, OF h2]
  from a s1 s2 have a': "fst (get_personal_info profile_plain (Page [])) = Some (''Li'', ''Law'')"
    by simp
  from h1 a' h2 b show ?thesis by (intro conjI)
qed

end
